theory Spec2Isabelle
  imports Complex_Main
begin

section \<open>The stream controller of hls.js (src/controller/stream-controller.ts)\<close>

text \<open>
  A shallow embedding of the scheduler. The controller object, the hls object's fields it
  reads and writes, the fragment objects and the fragment tracker are one record that each
  method takes and returns. JavaScript numbers are reals: NaN and the infinities are not
  values of the model, except for the offsets of a buffer flush, which have a type of their
  own. A value that is \<^verbatim>\<open>undefined\<close> or \<^verbatim>\<open>null\<close> is \<open>None\<close>; reading a property of it
  is the error \<open>TypeError\<close>.
\<close>

subsection \<open>Data\<close>

datatype State =
  STOPPED | IDLE | WAITING_LEVEL | KEY_LOADING | FRAG_LOADING | FRAG_LOADING_WAITING_RETRY
  | PARSING | PARSED | BUFFER_FLUSHING | ENDED | ERROR

datatype ErrorDetails =
  FRAG_LOAD_ERROR | FRAG_LOAD_TIMEOUT | KEY_LOAD_ERROR | KEY_LOAD_TIMEOUT
  | LEVEL_LOAD_ERROR | LEVEL_LOAD_TIMEOUT | BUFFER_FULL_ERROR | OTHER_ERROR

datatype FragmentState = NOT_LOADED | LOADING | PARTIAL | APPENDING | OK

datatype PlaylistLevelType = MAIN | AUDIO | SUBTITLE

datatype JSError = TypeError

text \<open>\<^verbatim>\<open>frag.sn\<close> is a number, or the string 'initSegment' for an init segment.\<close>

datatype SeqNum = SN int | InitSegmentSN

text \<open>The offsets of a flush: a number or \<^verbatim>\<open>Number.POSITIVE_INFINITY\<close>.\<close>

datatype Offset = Num real | POSITIVE_INFINITY

text \<open>
  A fragment object. \<open>backtracked\<close> is \<^verbatim>\<open>undefined\<close>, false or true in the source, and only
  ever tested for truth: it is a bool. \<open>loader\<close> says whether the fragment has a loader
  object, \<open>data_f\<close> whether an init segment has its data.
\<close>

record Fragment =
  sn :: SeqNum
  level :: int
  cc :: int
  start :: real
  duration :: real
  type_f :: PlaylistLevelType
  encrypted :: bool
  backtracked :: bool
  dropped :: nat
  deltaPTS :: "real option"
  endProgramDateTime :: "real option"
  loader :: bool
  autoLevel :: bool
  bitrateTest_f :: bool
  data_f :: bool
  startPTS :: "real option"
  endPTS :: "real option"
  startDTS :: "real option"
  endDTS :: "real option"
  hasAudio_f :: bool
  hasVideo_f :: bool

text \<open>Fragments are objects shared by reference: a reference is an address of the store.\<close>

type_synonym fref = nat

record LevelDetails =
  fragments :: "fref list"
  startSN :: int
  endSN :: int
  live :: bool
  PTSKnown :: bool
  hasProgramDateTime :: bool
  targetduration :: real
  totalduration :: real
  initSegment :: "fref option"

record Level =
  bitrate :: real
  details :: "LevelDetails option"

type_synonym TimeRanges = "(real \<times> real) list"

record Media =
  currentTime :: real
  paused :: bool
  readyState :: nat
  seeking :: bool
  duration_m :: real
  buffered :: TimeRanges

text \<open>
  \<^verbatim>\<open>this.mediaBuffer\<close> is the media element itself or the source buffer of a track.
\<close>

datatype BufferSource = TheMedia | SourceBuffer TimeRanges

record BufferInfo =
  len :: real
  start_b :: real
  end_b :: real

text \<open>
  The options the controller reads. An option that may be \<^verbatim>\<open>undefined\<close> is an option
  value; the retry limit and the initial size of a live manifest are counts, hence
  integers.
\<close>

record Config =
  maxBufferLength :: real
  maxMaxBufferLength :: real
  maxBufferSize :: real
  maxBufferHole :: real
  maxFragLookUpTolerance :: real
  liveSyncDuration :: "real option"
  liveSyncDurationCount :: real
  liveMaxLatencyDuration :: "real option"
  liveMaxLatencyDurationCount :: real
  initialLiveManifestSize :: int
  startFragPrefetch :: bool
  fragLoadingMaxRetry :: int
  fragLoadingRetryDelay :: real
  fragLoadingMaxRetryTimeout :: real

text \<open>The events the controller triggers on the bus, with the payload the model keeps.\<close>

datatype BufferContent = InitSegmentContent | DataContent

datatype Event =
  EV_BUFFER_EOS "string option"
  | EV_KEY_LOADING fref
  | EV_BUFFER_FLUSHING Offset Offset "string option"
  | EV_BUFFER_CODECS "string list"
  | EV_BUFFER_APPENDING string BufferContent
  | EV_FRAG_PARSING_INIT_SEGMENT fref
  | EV_INIT_PTS_FOUND fref real
  | EV_FRAG_PARSING_METADATA fref
  | EV_FRAG_PARSING_USERDATA fref
  | EV_LEVEL_PTS_UPDATED int real string real real

text \<open>
  What a method does to its collaborators, in order: an event triggered on the bus, a call
  on the media element, on a fragment's loader or of one of the loading methods of the
  base class, the assignment of \<^verbatim>\<open>hls.nextLoadLevel\<close>, and a call of \<^verbatim>\<open>this.tick()\<close>.
  The task loop of the base class, which runs the tick at once or defers it, is not under
  src/: a method of the model ends where it asks for the tick, and the tick is the effect
  \<open>Tick\<close>. What the listeners of an event do while it is triggered is outside the
  model. Log messages are not effects; a message that reads a property of a missing
  object throws, and that is modelled.
\<close>

datatype Effect =
  Trigger Event
  | Tick
  | MediaPause
  | MediaPlay
  | LoaderAbort fref
  | LoadInitSegment fref
  | DoFragLoad fref
  | LoadFragForPlayback fref
  | SetNextLoadLevel int

record ErrorData =
  details_e :: ErrorDetails
  fatal :: bool
  frag_e :: "fref option"
  parent_e :: "PlaylistLevelType option"
  levelRetry :: bool

text \<open>
  The controller with what it reaches: its own fields, \<^verbatim>\<open>hls.nextLoadLevel\<close> and
  \<^verbatim>\<open>hls.autoLevelEnabled\<close>, the configuration (the source halves
  \<^verbatim>\<open>config.maxMaxBufferLength\<close> in place), the media element, the store of fragment
  objects, the fragment tracker and the effects so far.
\<close>

record Controller =
  state :: State
  fragLoadError :: nat
  retryDate :: real
  loadedmetadata :: bool
  startFragRequested :: bool
  nextLoadPosition :: real
  startPosition :: real
  fragCurrent :: "fref option"
  fragPrevious :: "fref option"
  media :: "Media option"
  mediaBuffer :: "BufferSource option"
  config :: Config
  levels :: "Level list option"
  level_c :: int
  nextLoadLevel :: int
  autoLevelEnabled :: bool
  levelLastLoaded :: "int option"
  altAudio :: bool
  bitrateTest :: bool
  immediateSwitch :: bool
  previouslyPaused :: bool
  pendingBuffering :: bool
  appended :: bool
  liveSyncPosition :: "real option"
  frags :: "fref \<Rightarrow> Fragment"
  tracker :: "fref \<Rightarrow> FragmentState option"
  effects :: "Effect list"

subsection \<open>Collaborators\<close>

definition trigger :: "Event \<Rightarrow> Controller \<Rightarrow> Controller" where
  "trigger ev st = st\<lparr>effects := effects st @ [Trigger ev]\<rparr>"

definition perform :: "Effect \<Rightarrow> Controller \<Rightarrow> Controller" where
  "perform e st = st\<lparr>effects := effects st @ [e]\<rparr>"

text \<open>
  Modelled from the spec: \<^verbatim>\<open>BufferHelper.isBuffered\<close> (utils/buffer-helper, not under
  src/). The buffered set is an ordered list of disjoint ranges \<open>[s, e)\<close>; a position is
  buffered when one of them contains it.
\<close>

definition isBuffered :: "Media \<Rightarrow> real \<Rightarrow> bool" where
  "isBuffered m pos = list_ex (\<lambda>(s, e). s \<le> pos \<and> pos < e) (buffered m)"

subsection \<open>Flushing and the buffer length cap\<close>

definition flushMainBuffer :: "Offset \<Rightarrow> Offset \<Rightarrow> Controller \<Rightarrow> Controller" where
  "flushMainBuffer startOffset endOffset st =
     (let st1 = st\<lparr>state := BUFFER_FLUSHING\<rparr>
      in trigger (EV_BUFFER_FLUSHING startOffset endOffset
                    (if altAudio st1 then Some ''video'' else None)) st1)"

definition reduceMaxBufferLength :: "real \<Rightarrow> Controller \<Rightarrow> bool \<times> Controller" where
  "reduceMaxBufferLength minLength st =
     (if maxMaxBufferLength (config st) \<ge> minLength
      then (True, st\<lparr>config := (config st)\<lparr>maxMaxBufferLength :=
                                   maxMaxBufferLength (config st) / 2\<rparr>\<rparr>)
      else (False, st))"

subsection \<open>onError\<close>

text \<open>
  The fragment an error event is about, \<^verbatim>\<open>data.frag || this.fragCurrent\<close>: the event's,
  else the current one.
\<close>

definition errorFrag :: "ErrorData \<Rightarrow> Controller \<Rightarrow> fref option" where
  "errorFrag data st = (case frag_e data of Some r \<Rightarrow> Some r | None \<Rightarrow> fragCurrent st)"

text \<open>
  \<^verbatim>\<open>mediaBuffered\<close> of \<^verbatim>\<open>onError\<close>: a media element is attached, and its current position
  and the position half a second later are both buffered.
\<close>

definition mediaBuffered :: "Controller \<Rightarrow> bool" where
  "mediaBuffered st =
     (case media st of
        None \<Rightarrow> False
      | Some m \<Rightarrow> isBuffered m (currentTime m) \<and> isBuffered m (currentTime m + 0.5))"

text \<open>
  \<open>now\<close> is what \<^verbatim>\<open>window.performance.now()\<close> returns. The handler changes
  \<^verbatim>\<open>data.fatal\<close> in place, so it returns the event's data with the controller. The
  warning of the retry branch reads \<^verbatim>\<open>frag.sn\<close>: without a fragment it throws.
\<close>

definition onError :: "real \<Rightarrow> ErrorData \<Rightarrow> Controller \<Rightarrow> JSError + (ErrorData \<times> Controller)" where
  "onError now data st =
     (let frag = errorFrag data st in
      if (case frag of Some r \<Rightarrow> type_f (frags st r) \<noteq> MAIN | None \<Rightarrow> False)
      then Inr (data, st)
      else
        if details_e data \<in> {FRAG_LOAD_ERROR, FRAG_LOAD_TIMEOUT, KEY_LOAD_ERROR, KEY_LOAD_TIMEOUT}
        then
          (if \<not> fatal data then
             (if int (fragLoadError st) + 1 \<le> fragLoadingMaxRetry (config st) then
                (let delay = min (2 ^ fragLoadError st * fragLoadingRetryDelay (config st))
                                 (fragLoadingMaxRetryTimeout (config st))
                 in case frag of
                      None \<Rightarrow> Inl TypeError
                    | Some r \<Rightarrow>
                        let st1 = st\<lparr>retryDate := now + delay\<rparr>;
                            st2 = (if \<not> loadedmetadata st1
                                   then st1\<lparr>startFragRequested := False,
                                            nextLoadPosition := startPosition st1\<rparr>
                                   else st1)
                        in Inr (data, st2\<lparr>fragLoadError := fragLoadError st2 + 1,
                                           state := FRAG_LOADING_WAITING_RETRY\<rparr>))
              else Inr (data\<lparr>fatal := True\<rparr>, st\<lparr>state := ERROR\<rparr>))
           else Inr (data, st))
        else if details_e data \<in> {LEVEL_LOAD_ERROR, LEVEL_LOAD_TIMEOUT}
        then
          (if state st \<noteq> ERROR then
             (if fatal data then Inr (data, st\<lparr>state := ERROR\<rparr>)
              else if \<not> levelRetry data \<and> state st = WAITING_LEVEL
                   then Inr (data, st\<lparr>state := IDLE\<rparr>)
                   else Inr (data, st))
           else Inr (data, st))
        else if details_e data = BUFFER_FULL_ERROR
        then
          (if parent_e data = Some MAIN \<and> (state st = PARSING \<or> state st = PARSED) then
             (if mediaBuffered st
              then Inr (data, (snd (reduceMaxBufferLength (maxBufferLength (config st)) st))
                                \<lparr>state := IDLE\<rparr>)
              else Inr (data, flushMainBuffer (Num 0) POSITIVE_INFINITY
                                (st\<lparr>fragCurrent := None\<rparr>)))
           else Inr (data, st))
        else Inr (data, st))"

subsection \<open>The fragment tracker\<close>

text \<open>
  Modelled from the spec: the fragment tracker (controller/fragment-tracker, not under
  src/). It keeps a state per tracked fragment; a fragment it does not track is
  \<open>NOT_LOADED\<close>, and removing a fragment drops its entry.
\<close>

definition getState :: "Controller \<Rightarrow> fref \<Rightarrow> FragmentState" where
  "getState st frag = (case tracker st frag of None \<Rightarrow> NOT_LOADED | Some s \<Rightarrow> s)"

definition removeFragment :: "fref \<Rightarrow> Controller \<Rightarrow> Controller" where
  "removeFragment frag st = st\<lparr>tracker := (tracker st)(frag := None)\<rparr>"

subsection \<open>Immediate level switch\<close>

text \<open>
  \<^verbatim>\<open>media.pause()\<close> and \<^verbatim>\<open>media.play()\<close> are recorded as effects and set the element's
  \<open>paused\<close> attribute, as the media element does.
\<close>

definition immediateLevelSwitch :: "Controller \<Rightarrow> Controller" where
  "immediateLevelSwitch st =
     (let st1 =
            (if \<not> immediateSwitch st then
               (let s = st\<lparr>immediateSwitch := True\<rparr>
                in case media s of
                     Some m \<Rightarrow>
                       (perform MediaPause (s\<lparr>media := Some (m\<lparr>paused := True\<rparr>)\<rparr>))
                         \<lparr>previouslyPaused := paused m\<rparr>
                   | None \<Rightarrow> s\<lparr>previouslyPaused := True\<rparr>)
             else st);
          st2 =
            (case fragCurrent st1 of
               Some r \<Rightarrow> if loader (frags st1 r) then perform (LoaderAbort r) st1 else st1
             | None \<Rightarrow> st1)
      in flushMainBuffer (Num 0) POSITIVE_INFINITY (st2\<lparr>fragCurrent := None\<rparr>))"

definition immediateLevelSwitchEnd :: "Controller \<Rightarrow> Controller" where
  "immediateLevelSwitchEnd st =
     (case media st of
        None \<Rightarrow> st
      | Some m \<Rightarrow>
          if buffered m \<noteq> [] then
            (let m1 = (if isBuffered m (currentTime m)
                       then m\<lparr>currentTime := currentTime m - 0.0001\<rparr> else m);
                 st1 = st\<lparr>immediateSwitch := False, media := Some m1\<rparr>
             in if \<not> previouslyPaused st1
                then perform MediaPlay (st1\<lparr>media := Some (m1\<lparr>paused := False\<rparr>)\<rparr>)
                else st1)
          else st)"

subsection \<open>Loading a key or a fragment\<close>

definition loadKey :: "fref \<Rightarrow> Controller \<Rightarrow> Controller" where
  "loadKey frag st = trigger (EV_KEY_LOADING frag) (st\<lparr>state := KEY_LOADING\<rparr>)"

text \<open>
  \<^verbatim>\<open>_loadBitrateTestFrag\<close> starts the load (\<^verbatim>\<open>_doFragLoad\<close> of the base class); what it
  does when the load has completed runs later, from the promise.
\<close>

definition loadBitrateTestFrag :: "fref \<Rightarrow> Controller \<Rightarrow> Controller" where
  "loadBitrateTestFrag frag st = perform (DoFragLoad frag) st"

text \<open>\<^verbatim>\<open>Number.isFinite(frag.sn)\<close>: a number of the model is finite, the string is not.\<close>

fun isFiniteSN :: "SeqNum \<Rightarrow> bool" where
  "isFiniteSN (SN n) = True"
| "isFiniteSN InitSegmentSN = False"

definition loadFragment :: "fref \<Rightarrow> Controller \<Rightarrow> Controller" where
  "loadFragment frag st =
     (let fragState = getState st frag;
          st1 = st\<lparr>fragCurrent := Some frag, startFragRequested := True\<rparr>;
          st2 = (if isFiniteSN (sn (frags st1 frag)) \<and> \<not> bitrateTest st1
                 then st1\<lparr>nextLoadPosition :=
                            start (frags st1 frag) + duration (frags st1 frag)\<rparr>
                 else st1)
      in if backtracked (frags st2 frag) \<or> fragState = NOT_LOADED \<or> fragState = PARTIAL then
           (let st3 = st2\<lparr>frags := (frags st2)
                          (frag := (frags st2 frag)\<lparr>autoLevel := autoLevelEnabled st2\<rparr>)\<rparr>
            in if sn (frags st3 frag) = InitSegmentSN then perform (LoadInitSegment frag) st3
               else if bitrateTest st3 then
                 loadBitrateTestFrag frag
                   (st3\<lparr>frags := (frags st3)
                           (frag := (frags st3 frag)\<lparr>bitrateTest_f := True\<rparr>)\<rparr>)
               else perform (LoadFragForPlayback frag) st3)
         else if fragState = APPENDING then
           (case reduceMaxBufferLength (duration (frags st2 frag)) st2 of
              (reduced, st3) \<Rightarrow> if reduced then removeFragment frag st3 else st3)
         else st2)"

subsection \<open>Helpers of other modules\<close>

text \<open>
  The functions of other modules that the selection calls, and whose code is not under
  src/, are parameters: \<^verbatim>\<open>BufferHelper.bufferInfo\<close> (given the buffered ranges of
  \<^verbatim>\<open>this.mediaBuffer\<close>, else of the media, if any), \<^verbatim>\<open>_streamEnded\<close> of the base class,
  \<^verbatim>\<open>findFragmentByPTS\<close> and \<^verbatim>\<open>findFragmentByPDT\<close> of fragment-finders, and
  \<^verbatim>\<open>LevelHelper.updateFragPTSDTS\<close>, which returns the drift and updates the level's
  details and fragment objects.
\<close>

record Helpers =
  bufferInfo :: "TimeRanges option \<Rightarrow> real \<Rightarrow> real \<Rightarrow> BufferInfo"
  streamEnded :: "Controller \<Rightarrow> BufferInfo \<Rightarrow> LevelDetails \<Rightarrow> bool"
  findFragmentByPTS ::
    "(fref \<Rightarrow> Fragment) \<Rightarrow> fref option \<Rightarrow> fref list \<Rightarrow> real \<Rightarrow> real \<Rightarrow> fref option"
  findFragmentByPDT ::
    "(fref \<Rightarrow> Fragment) \<Rightarrow> fref list \<Rightarrow> real option \<Rightarrow> real \<Rightarrow> fref option"
  updateFragPTSDTS ::
    "LevelDetails option \<Rightarrow> (fref \<Rightarrow> Fragment) \<Rightarrow> fref \<Rightarrow> real \<Rightarrow> real \<Rightarrow> real \<Rightarrow> real option
       \<Rightarrow> real \<times> LevelDetails option \<times> (fref \<Rightarrow> Fragment)"

text \<open>Indexing a JavaScript array: \<^verbatim>\<open>undefined\<close> outside its bounds.\<close>

definition index_js :: "'a list \<Rightarrow> int \<Rightarrow> 'a option" where
  "index_js xs i = (if 0 \<le> i \<and> i < int (length xs) then Some (xs ! nat i) else None)"

text \<open>
  Modelled from the spec: \<^verbatim>\<open>BinarySearch.search\<close> (utils/binary-search, not under src/),
  the binary search of a list with a comparison function: a positive result moves to the
  upper half, a negative one to the lower half, zero returns the element; \<^verbatim>\<open>null\<close> when
  the interval is empty. The comparison function of the caller reads a property of the
  element, so an element that is \<^verbatim>\<open>undefined\<close> throws.
\<close>

function search_from :: "(fref \<Rightarrow> int) \<Rightarrow> fref list \<Rightarrow> int \<Rightarrow> int \<Rightarrow> JSError + fref option" where
  "search_from comparisonFn list minIndex maxIndex =
     (if minIndex \<le> maxIndex then
        (case index_js list ((minIndex + maxIndex) div 2) of
           None \<Rightarrow> Inl TypeError
         | Some currentElement \<Rightarrow>
             if comparisonFn currentElement > 0
             then search_from comparisonFn list ((minIndex + maxIndex) div 2 + 1) maxIndex
             else if comparisonFn currentElement < 0
             then search_from comparisonFn list minIndex ((minIndex + maxIndex) div 2 - 1)
             else Inr (Some currentElement))
      else Inr None)"
  by pat_completeness auto
termination
  by (relation "measure (\<lambda>(c, l, lo, hi). nat (hi - lo + 1))") auto

declare search_from.simps [simp del]

definition search :: "fref list \<Rightarrow> (fref \<Rightarrow> int) \<Rightarrow> JSError + fref option" where
  "search list comparisonFn = search_from comparisonFn list 0 (int (length list) - 1)"

subsection \<open>Live playlists\<close>

definition computeLivePosition :: "real \<Rightarrow> LevelDetails \<Rightarrow> Controller \<Rightarrow> real" where
  "computeLivePosition sliding levelDetails st =
     (let targetLatency =
            (case liveSyncDuration (config st) of
               Some d \<Rightarrow> d
             | None \<Rightarrow> liveSyncDurationCount (config st) * targetduration levelDetails)
      in sliding + max 0 (totalduration levelDetails - targetLatency))"

text \<open>
  The first block of \<^verbatim>\<open>_ensureFragmentAtLivePoint\<close> (lines 305 to 316): the check of the
  seekable boundaries. It returns the value of the method's local \<^verbatim>\<open>bufferEnd\<close> with the
  controller.
\<close>

definition ensureFragmentAtLivePoint_sync ::
    "LevelDetails \<Rightarrow> real \<Rightarrow> real \<Rightarrow> real \<Rightarrow> Controller \<Rightarrow> real \<times> Controller" where
  "ensureFragmentAtLivePoint_sync levelDetails bufferEnd start0 end0 st =
     (let maxLatency =
            (case liveMaxLatencyDuration (config st) of
               Some d \<Rightarrow> d
             | None \<Rightarrow> liveMaxLatencyDurationCount (config st) * targetduration levelDetails)
      in if bufferEnd < max (start0 - maxFragLookUpTolerance (config st)) (end0 - maxLatency)
         then
           (let livePos = computeLivePosition start0 levelDetails st;
                st1 = st\<lparr>liveSyncPosition := Some livePos\<rparr>;
                st2 = (case media st1 of
                         Some m \<Rightarrow>
                           if readyState m \<noteq> 0 \<and> duration_m m > livePos
                           then st1\<lparr>media := Some (m\<lparr>currentTime := livePos\<rparr>)\<rparr>
                           else st1
                       | None \<Rightarrow> st1)
            in (livePos, st2\<lparr>nextLoadPosition := livePos\<rparr>))
         else (bufferEnd, st))"

text \<open>
  The comparison of the continuity counters that the binary search of
  \<^verbatim>\<open>_ensureFragmentAtLivePoint\<close> is given. Its second test is
  \<^verbatim>\<open>fragPrevious < frag.cc\<close>, an object compared with a number: the object converts to
  NaN, and a comparison with NaN is false.
\<close>

definition object_less_number :: "Fragment \<Rightarrow> int \<Rightarrow> bool" where
  "object_less_number obj n = False"

definition compareCC :: "(fref \<Rightarrow> Fragment) \<Rightarrow> fref \<Rightarrow> fref \<Rightarrow> int" where
  "compareCC fs fragPrev frag =
     (if cc (fs fragPrev) > cc (fs frag) then 1
      else if object_less_number (fs fragPrev) (cc (fs frag)) then - 1
      else 0)"

text \<open>
  What \<^verbatim>\<open>_ensureFragmentAtLivePoint\<close> returns: \<^verbatim>\<open>null\<close> (load nothing), \<^verbatim>\<open>undefined\<close>
  (nothing chosen here) or a fragment.
\<close>

datatype LivePoint = NullFrag | NoFrag | Frag fref

text \<open>
  The fragment to switch to on a live playlist without PTS (lines 337 to 368), \<open>None\<close>
  when the search finds none. \<^verbatim>\<open>fragPrevious.sn + 1\<close> is a number only when the sequence
  number is one; the string it is otherwise compares false with the bounds.
\<close>

definition switchFragment ::
    "Helpers \<Rightarrow> LevelDetails \<Rightarrow> fref option \<Rightarrow> fref list \<Rightarrow> Controller \<Rightarrow> JSError + fref option" where
  "switchFragment h levelDetails fragPrev frags0 st =
     (case fragPrev of
        None \<Rightarrow> Inr None
      | Some p \<Rightarrow>
          if hasProgramDateTime levelDetails then
            Inr (findFragmentByPDT h (frags st) frags0 (endProgramDateTime (frags st p))
                   (maxFragLookUpTolerance (config st)))
          else
            (let byNextSN =
                   (case sn (frags st p) of
                      InitSegmentSN \<Rightarrow> Inr None
                    | SN n \<Rightarrow>
                        if n + 1 \<ge> startSN levelDetails \<and> n + 1 \<le> endSN levelDetails then
                          (case index_js frags0 (n + 1 - startSN levelDetails) of
                             None \<Rightarrow> Inl TypeError
                           | Some fragNext \<Rightarrow>
                               if cc (frags st p) = cc (frags st fragNext)
                               then Inr (Some fragNext) else Inr None)
                        else Inr None)
             in case byNextSN of
                  Inl e \<Rightarrow> Inl e
                | Inr (Some r) \<Rightarrow> Inr (Some r)
                | Inr None \<Rightarrow> search frags0 (compareCC (frags st) p)))"

text \<open>\<^verbatim>\<open>Math.round(fragLen / 2)\<close> rounds a half up: it is \<open>(fragLen + 1) div 2\<close>.\<close>

definition ensureFragmentAtLivePoint ::
    "Helpers \<Rightarrow> LevelDetails \<Rightarrow> real \<Rightarrow> real \<Rightarrow> real \<Rightarrow> fref option \<Rightarrow> fref list \<Rightarrow> nat
       \<Rightarrow> Controller \<Rightarrow> JSError + (LivePoint \<times> Controller)" where
  "ensureFragmentAtLivePoint h levelDetails bufferEnd start0 end0 fragPrev frags0 fragLen st =
     (case ensureFragmentAtLivePoint_sync levelDetails bufferEnd start0 end0 st of
        (bufferEnd1, st1) \<Rightarrow>
          if PTSKnown levelDetails \<and> bufferEnd1 > end0
             \<and> (case media st1 of Some m \<Rightarrow> readyState m \<noteq> 0 | None \<Rightarrow> False)
          then Inr (NullFrag, st1)
          else if startFragRequested st1 \<and> \<not> PTSKnown levelDetails then
            (case switchFragment h levelDetails fragPrev frags0 st1 of
               Inl e \<Rightarrow> Inl e
             | Inr (Some r) \<Rightarrow> Inr (Frag r, st1)
             | Inr None \<Rightarrow>
                 (case index_js frags0 (min (int fragLen - 1) ((int fragLen + 1) div 2)) of
                    None \<Rightarrow> Inl TypeError
                  | Some r \<Rightarrow> Inr (Frag r, st1)))
          else Inr (NoFrag, st1))"

subsection \<open>Choosing the fragment\<close>

text \<open>
  \<^verbatim>\<open>frag.sn - levelDetails.startSN\<close> is NaN (\<open>None\<close>) for the string; an array indexed by
  NaN gives \<^verbatim>\<open>undefined\<close>, NaN and 0 are false as a condition, and the string is not less
  than a number.
\<close>

fun snIndex :: "SeqNum \<Rightarrow> int \<Rightarrow> int option" where
  "snIndex (SN n) startSN0 = Some (n - startSN0)"
| "snIndex InitSegmentSN startSN0 = None"

fun snLess :: "SeqNum \<Rightarrow> int \<Rightarrow> bool" where
  "snLess (SN n) m = (n < m)"
| "snLess InitSegmentSN m = False"

definition truthyIndex :: "int option \<Rightarrow> bool" where
  "truthyIndex i = (case i of Some k \<Rightarrow> k \<noteq> 0 | None \<Rightarrow> False)"

definition index_at :: "'a list \<Rightarrow> int option \<Rightarrow> int \<Rightarrow> 'a option" where
  "index_at xs i d = (case i of Some k \<Rightarrow> index_js xs (k + d) | None \<Rightarrow> None)"

text \<open>The assignments \<^verbatim>\<open>frag.dropped = n\<close> and \<^verbatim>\<open>frag.backtracked = b\<close> on the store.\<close>

definition setDropped :: "fref \<Rightarrow> nat \<Rightarrow> Controller \<Rightarrow> Controller" where
  "setDropped frag n st = st\<lparr>frags := (frags st)(frag := (frags st frag)\<lparr>dropped := n\<rparr>)\<rparr>"

definition setBacktracked :: "fref \<Rightarrow> bool \<Rightarrow> Controller \<Rightarrow> Controller" where
  "setBacktracked frag b st =
     st\<lparr>frags := (frags st)(frag := (frags st frag)\<lparr>backtracked := b\<rparr>)\<rparr>"

text \<open>
  The adjustment of \<^verbatim>\<open>_findFragment\<close> once a fragment is found (lines 395 to 437). The
  log of the step forward reads \<^verbatim>\<open>frag.sn\<close> of the next fragment: without one it throws.
\<close>

definition findFragment_adjust ::
    "fref \<Rightarrow> fref option \<Rightarrow> fref list \<Rightarrow> LevelDetails \<Rightarrow> Controller
       \<Rightarrow> JSError + (fref option \<times> Controller)" where
  "findFragment_adjust frag fragPrev frags0 levelDetails st =
     (let curSNIdx = snIndex (sn (frags st frag)) (startSN levelDetails);
          prevFrag = index_at frags0 curSNIdx (- 1);
          nextFrag = index_at frags0 curSNIdx 1
      in case fragPrev of
           None \<Rightarrow> Inr (Some frag, st)
         | Some p \<Rightarrow>
             if sn (frags st frag) = sn (frags st p) then
               (if level (frags st frag) = level (frags st p) \<and> \<not> backtracked (frags st frag)
                then
                  (if snLess (sn (frags st frag)) (endSN levelDetails) then
                     (if (case deltaPTS (frags st p) of
                            Some d \<Rightarrow> d \<noteq> 0 \<and> d > maxBufferHole (config st)
                          | None \<Rightarrow> False)
                         \<and> dropped (frags st p) \<noteq> 0 \<and> truthyIndex curSNIdx
                         \<and> \<not> backtracked (frags st frag)
                      then Inr (prevFrag, st)
                      else (case nextFrag of
                              None \<Rightarrow> Inl TypeError
                            | Some n \<Rightarrow> Inr (Some n, st)))
                   else Inr (None, st))
                else if backtracked (frags st frag) then
                  (if (case nextFrag of Some n \<Rightarrow> backtracked (frags st n) | None \<Rightarrow> False)
                   then Inr (nextFrag, st)
                   else
                     (let st1 = setDropped frag 0 st
                      in case prevFrag of
                           Some q \<Rightarrow> Inr (Some q, setBacktracked q True st1)
                         | None \<Rightarrow>
                             if truthyIndex curSNIdx then Inr (None, st1)
                             else Inr (Some frag, st1)))
                else Inr (Some frag, st))
             else Inr (Some frag, st))"

text \<open>
  The fragment \<^verbatim>\<open>_findFragment\<close> starts from (lines 385 to 393): the one the search by
  PTS finds for the buffer's end, or the last one when the buffer reaches the playlist's
  end.
\<close>

definition foundFragment ::
    "Helpers \<Rightarrow> fref option \<Rightarrow> nat \<Rightarrow> fref list \<Rightarrow> real \<Rightarrow> real \<Rightarrow> Controller \<Rightarrow> fref option" where
  "foundFragment h fragPrev fragLen frags0 bufferEnd end0 st =
     (if bufferEnd < end0 then
        (let lookupTolerance =
               (if bufferEnd > end0 - maxFragLookUpTolerance (config st) then 0
                else maxFragLookUpTolerance (config st))
         in findFragmentByPTS h (frags st) fragPrev frags0 bufferEnd lookupTolerance)
      else index_js frags0 (int fragLen - 1))"

definition findFragment ::
    "Helpers \<Rightarrow> real \<Rightarrow> fref option \<Rightarrow> nat \<Rightarrow> fref list \<Rightarrow> real \<Rightarrow> real \<Rightarrow> LevelDetails
       \<Rightarrow> Controller \<Rightarrow> JSError + (fref option \<times> Controller)" where
  "findFragment h start0 fragPrev fragLen frags0 bufferEnd end0 levelDetails st =
     (case foundFragment h fragPrev fragLen frags0 bufferEnd end0 st of
        None \<Rightarrow> Inr (None, st)
      | Some frag \<Rightarrow> findFragment_adjust frag fragPrev frags0 levelDetails st)"

text \<open>
  Whether the fragment after index \<open>idx\<close> of the list exists and is backtracked: the test
  \<^verbatim>\<open>nextFrag && nextFrag.backtracked\<close>.
\<close>

definition successorBacktracked :: "fref list \<Rightarrow> int option \<Rightarrow> Controller \<Rightarrow> bool" where
  "successorBacktracked frags0 idx st =
     (case index_at frags0 idx 1 of Some n \<Rightarrow> backtracked (frags st n) | None \<Rightarrow> False)"

definition loadKeyOrFragment :: "fref \<Rightarrow> Controller \<Rightarrow> Controller" where
  "loadKeyOrFragment frag st =
     (if encrypted (frags st frag) then loadKey frag st else loadFragment frag st)"

text \<open>
  In \<^verbatim>\<open>_fetchPayloadOrEos\<close> the first choice is the init segment without data, the
  fragment at the live point, or the first fragment of a VoD playlist that starts after
  the buffer's end; \<open>NullFrag\<close> stands for the method returning without a load.
\<close>

definition fetchPayloadOrEos ::
    "Helpers \<Rightarrow> real \<Rightarrow> BufferInfo \<Rightarrow> LevelDetails \<Rightarrow> Controller \<Rightarrow> JSError + Controller" where
  "fetchPayloadOrEos h pos bufInfo levelDetails st =
     (let fragPrev = fragPrevious st;
          frags0 = fragments levelDetails;
          fragLen = length frags0
      in if fragLen = 0 then Inr st
         else
           (let start0 = start (frags st (hd frags0));
                end0 = start (frags st (last frags0)) + duration (frags st (last frags0));
                bufferEnd = end_b bufInfo;
                first =
                  (if (case initSegment levelDetails of
                         Some i \<Rightarrow> \<not> data_f (frags st i) | None \<Rightarrow> False)
                   then (case initSegment levelDetails of
                           Some i \<Rightarrow> Inr (Frag i, st) | None \<Rightarrow> Inr (NoFrag, st))
                   else if live levelDetails then
                     (if int fragLen < initialLiveManifestSize (config st)
                      then Inr (NullFrag, st)
                      else ensureFragmentAtLivePoint h levelDetails bufferEnd start0 end0
                             fragPrev frags0 fragLen st)
                   else if bufferEnd < start0 then Inr (Frag (hd frags0), st)
                   else Inr (NoFrag, st))
            in case first of
                 Inl e \<Rightarrow> Inl e
               | Inr (NullFrag, st1) \<Rightarrow> Inr st1
               | Inr (Frag r, st1) \<Rightarrow> Inr (loadKeyOrFragment r st1)
               | Inr (NoFrag, st1) \<Rightarrow>
                   (case findFragment h start0 fragPrev fragLen frags0 bufferEnd end0
                           levelDetails st1 of
                      Inl e \<Rightarrow> Inl e
                    | Inr (None, st2) \<Rightarrow> Inr st2
                    | Inr (Some r, st2) \<Rightarrow> Inr (loadKeyOrFragment r st2))))"

subsection \<open>The tick in the IDLE state\<close>

text \<open>The buffered ranges of \<^verbatim>\<open>this.mediaBuffer ? this.mediaBuffer : media\<close>.\<close>

definition bufferedOf :: "Controller \<Rightarrow> TimeRanges option" where
  "bufferedOf st =
     (case mediaBuffer st of
        Some (SourceBuffer ranges) \<Rightarrow> Some ranges
      | Some TheMedia \<Rightarrow> map_option buffered (media st)
      | None \<Rightarrow> map_option buffered (media st))"

definition levelAt :: "Controller \<Rightarrow> int \<Rightarrow> Level option" where
  "levelAt st i = (case levels st of None \<Rightarrow> None | Some ls \<Rightarrow> index_js ls i)"

text \<open>
  The buffer length the level may reach: \<^verbatim>\<open>maxBufLen\<close> of \<^verbatim>\<open>_doTickIdle\<close>. A bitrate
  that is 0 or missing is false as a condition.
\<close>

definition maxBufLen :: "Config \<Rightarrow> real \<Rightarrow> real" where
  "maxBufLen cfg levelBitrate =
     min (if levelBitrate \<noteq> 0
          then max (8 * maxBufferSize cfg / levelBitrate) (maxBufferLength cfg)
          else maxBufferLength cfg)
         (maxMaxBufferLength cfg)"

text \<open>
  The position of \<^verbatim>\<open>_doTickIdle\<close>: \<^verbatim>\<open>media.currentTime\<close> once the metadata are loaded
  (it throws without a media element), else \<^verbatim>\<open>nextLoadPosition\<close> when it is not 0.
\<close>

definition tickPosition :: "Controller \<Rightarrow> JSError + real" where
  "tickPosition st =
     (if loadedmetadata st then
        (case media st of None \<Rightarrow> Inl TypeError | Some m \<Rightarrow> Inr (currentTime m))
      else if nextLoadPosition st \<noteq> 0 then Inr (nextLoadPosition st)
      else Inr 0)"

definition doTickIdle :: "Helpers \<Rightarrow> Controller \<Rightarrow> JSError + Controller" where
  "doTickIdle h st =
     (let level0 = nextLoadLevel st in
      if levelLastLoaded st = None
         \<or> (media st = None \<and> (startFragRequested st \<or> \<not> startFragPrefetch (config st)))
      then Inr st
      else
        (case levelAt st level0 of
           None \<Rightarrow> Inr st
         | Some levelInfo \<Rightarrow>
             (case tickPosition st of
                Inl e \<Rightarrow> Inl e
              | Inr pos \<Rightarrow>
                  (let bufInfo = bufferInfo h (bufferedOf st) pos (maxBufferHole (config st));
                       bufferLen = len bufInfo
                   in if bufferLen \<ge> maxBufLen (config st) (bitrate levelInfo) then Inr st
                      else
                        (let st1 = perform (SetNextLoadLevel level0)
                                     (st\<lparr>level_c := level0, nextLoadLevel := level0\<rparr>)
                         in case details levelInfo of
                              None \<Rightarrow> Inr (st1\<lparr>state := WAITING_LEVEL\<rparr>)
                            | Some levelDetails \<Rightarrow>
                                if live levelDetails \<and> levelLastLoaded st1 \<noteq> Some level0
                                then Inr (st1\<lparr>state := WAITING_LEVEL\<rparr>)
                                else if streamEnded h st1 bufInfo levelDetails
                                then Inr ((trigger
                                             (EV_BUFFER_EOS
                                                (if altAudio st1 then Some ''video'' else None))
                                             st1)\<lparr>state := ENDED\<rparr>)
                                else fetchPayloadOrEos h pos bufInfo levelDetails st1)))))"

subsection \<open>Transmux completion\<close>

text \<open>
  What the remuxer hands over for a track: its timestamps, the count of dropped video
  frames and the lengths of its two buffers (\<open>None\<close> for a missing buffer).
\<close>

record RemuxTrack =
  type_d :: string
  startPTS_d :: real
  endPTS_d :: "real option"
  startDTS_d :: real
  endDTS_d :: "real option"
  hasAudio :: bool
  hasVideo :: bool
  dropped_d :: nat
  data1 :: "nat option"
  data2 :: "nat option"

text \<open>
  The tracks of an init segment, by name in the order of the object's keys; of a track the
  model keeps whether it has an init segment to append.
\<close>

record InitSegmentData =
  tracks :: "(string \<times> bool) list option"
  initPTS :: "real option"

record RemuxResult =
  audio :: "RemuxTrack option"
  video :: "RemuxTrack option"
  text_r :: bool
  id3 :: bool
  initSegment_r :: "InitSegmentData option"

record TransmuxIdentifier =
  level_i :: int
  sn_i :: SeqNum

record TransmuxResult =
  remuxResult :: RemuxResult
  transmuxIdentifier :: TransmuxIdentifier

text \<open>
  Modelled from the spec: \<^verbatim>\<open>getCurrentContext\<close> (controller/base-stream-controller, not
  under src/). The level and sequence number of a completion are validated against the
  current fragment: the context is the current fragment and its level when they still
  match, and none otherwise.
\<close>

definition getCurrentContext :: "Controller \<Rightarrow> TransmuxIdentifier \<Rightarrow> (fref \<times> int) option" where
  "getCurrentContext st ident =
     (case levelAt st (level_i ident) of
        None \<Rightarrow> None
      | Some lv \<Rightarrow>
          (case fragCurrent st of
             None \<Rightarrow> None
           | Some r \<Rightarrow>
               if level (frags st r) = level_i ident \<and> sn (frags st r) = sn_i ident
               then Some (r, level_i ident) else None))"

definition setDetails :: "int \<Rightarrow> LevelDetails option \<Rightarrow> Controller \<Rightarrow> Controller" where
  "setDetails i d st =
     (case levels st of
        None \<Rightarrow> st
      | Some ls \<Rightarrow>
          if 0 \<le> i \<and> i < int (length ls)
          then st\<lparr>levels := Some (ls[nat i := (ls ! nat i)\<lparr>details := d\<rparr>])\<rparr>
          else st)"

definition detailsAt :: "Controller \<Rightarrow> int \<Rightarrow> LevelDetails option" where
  "detailsAt st i = (case levelAt st i of None \<Rightarrow> None | Some lv \<Rightarrow> details lv)"

text \<open>
  \<^verbatim>\<open>_updateTiming\<close>: the end timestamps that are not finite are filled in from the
  fragment's duration, the fragment records the elementary streams of the payload, and
  \<^verbatim>\<open>LevelHelper.updateFragPTSDTS\<close> updates the fragment and the details of the level.
\<close>

definition updateTiming :: "Helpers \<Rightarrow> fref \<Rightarrow> int \<Rightarrow> RemuxTrack option \<Rightarrow> Controller \<Rightarrow> Controller" where
  "updateTiming h frag lvl payload st =
     (case payload of
        None \<Rightarrow> st
      | Some d \<Rightarrow>
          (let endP = (case endPTS_d d of
                         Some e \<Rightarrow> e | None \<Rightarrow> startPTS_d d + duration (frags st frag));
               endD = (case endPTS_d d of
                         Some e \<Rightarrow> endDTS_d d
                       | None \<Rightarrow> Some (startDTS_d d + duration (frags st frag)));
               f1 = (if hasAudio d then (frags st frag)\<lparr>hasAudio_f := True\<rparr>
                     else frags st frag);
               f2 = (if hasVideo d then f1\<lparr>hasVideo_f := True\<rparr> else f1)
           in case updateFragPTSDTS h (detailsAt st lvl) ((frags st)(frag := f2)) frag
                     (startPTS_d d) endP (startDTS_d d) endD of
                (drift, details1, frags1) \<Rightarrow>
                  trigger (EV_LEVEL_PTS_UPDATED lvl drift (type_d d) (startPTS_d d) endP)
                    (setDetails lvl details1 (st\<lparr>frags := frags1\<rparr>))))"

text \<open>
  \<^verbatim>\<open>_bufferInitSegment\<close>: with alternate audio the audio track is deleted; the codecs are
  announced and the init segment of each track is appended. The codec names the method
  writes into the tracks are not part of the model.
\<close>

definition bufferInitSegment :: "int \<Rightarrow> (string \<times> bool) list \<Rightarrow> Controller \<Rightarrow> Controller" where
  "bufferInitSegment currentLevel tracks0 st =
     (if state st \<noteq> PARSING then st
      else
        (let tracks1 = (if altAudio st then filter (\<lambda>(name, i). name \<noteq> ''audio'') tracks0
                        else tracks0);
             st1 = trigger (EV_BUFFER_CODECS (map fst tracks1)) st;
             st2 = foldl (\<lambda>s (trackName, hasInit).
                            if hasInit
                            then trigger (EV_BUFFER_APPENDING trackName InitSegmentContent)
                                   (s\<lparr>appended := True, pendingBuffering := True\<rparr>)
                            else s) st1 tracks1
         in perform Tick st2))"

definition bufferFragmentData :: "RemuxTrack option \<Rightarrow> Controller \<Rightarrow> Controller" where
  "bufferFragmentData payload st =
     (case payload of
        None \<Rightarrow> st
      | Some d \<Rightarrow>
          if state st \<noteq> PARSING then st
          else perform Tick
                 (foldl (\<lambda>s buffer.
                           if (case buffer of Some n \<Rightarrow> n \<noteq> 0 | None \<Rightarrow> False)
                              \<and> state s = PARSING
                           then trigger (EV_BUFFER_APPENDING (type_d d) DataContent)
                                  (s\<lparr>appended := True, pendingBuffering := True\<rparr>)
                           else s) st [data1 d, data2 d]))"

text \<open>
  \<^verbatim>\<open>_hasDroppedFrames\<close> writes \<^verbatim>\<open>frag.dropped\<close> and \<^verbatim>\<open>frag.backtracked\<close>: it takes the
  store of fragments and returns it with its answer.
\<close>

definition hasDroppedFrames ::
    "fref \<Rightarrow> nat \<Rightarrow> int \<Rightarrow> (fref \<Rightarrow> Fragment) \<Rightarrow> bool \<times> (fref \<Rightarrow> Fragment)" where
  "hasDroppedFrames frag nDropped startSN0 fs =
     (if nDropped \<noteq> 0 then
        (let fs1 = fs(frag := (fs frag)\<lparr>dropped := nDropped\<rparr>)
         in if \<not> backtracked (fs1 frag) then
              (if sn (fs1 frag) = SN startSN0 then (False, fs1) else (True, fs1))
            else (False, fs1(frag := (fs1 frag)\<lparr>backtracked := False\<rparr>)))
      else (False, fs(frag := (fs frag)\<lparr>backtracked := False\<rparr>)))"

definition backtrack :: "fref \<Rightarrow> real \<Rightarrow> Controller \<Rightarrow> Controller" where
  "backtrack frag nextLoadPos st =
     (let st1 = removeFragment frag st;
          st2 = setBacktracked frag True st1
      in perform Tick (st2\<lparr>nextLoadPosition := nextLoadPos, state := IDLE,
                             fragPrevious := Some frag\<rparr>))"

text \<open>The end of \<^verbatim>\<open>_handleTransmuxComplete\<close>: the audio payload and the metadata.\<close>

definition bufferAudioAndMetadata ::
    "fref \<Rightarrow> RemuxTrack option \<Rightarrow> RemuxResult \<Rightarrow> Controller \<Rightarrow> Controller" where
  "bufferAudioAndMetadata frag audio0 res st =
     (let st1 = bufferFragmentData audio0 st;
          st2 = (if id3 res then trigger (EV_FRAG_PARSING_METADATA frag) st1 else st1)
      in if text_r res then trigger (EV_FRAG_PARSING_USERDATA frag) st2 else st2)"

text \<open>
  The timing update of \<^verbatim>\<open>_handleTransmuxComplete\<close> (lines 1205 to 1213), before a
  potential backtrack: with alternate audio the audio payload is dropped.
\<close>

definition transmuxAudio :: "RemuxResult \<Rightarrow> Controller \<Rightarrow> RemuxTrack option" where
  "transmuxAudio res st = (if altAudio st then None else audio res)"

definition transmuxTiming :: "Helpers \<Rightarrow> fref \<Rightarrow> int \<Rightarrow> RemuxResult \<Rightarrow> Controller \<Rightarrow> Controller" where
  "transmuxTiming h frag lvl res st =
     updateTiming h frag lvl (video res) (updateTiming h frag lvl (transmuxAudio res st) st)"

text \<open>
  The init segment of a remux result (lines 1219 to 1227): its tracks are buffered and
  announced, and an init PTS that is a finite number is announced.
\<close>

definition bufferTransmuxInit :: "fref \<Rightarrow> int \<Rightarrow> RemuxResult \<Rightarrow> Controller \<Rightarrow> Controller" where
  "bufferTransmuxInit frag lvl res st =
     (case initSegment_r res of
        None \<Rightarrow> st
      | Some i \<Rightarrow>
          (let s1 = (case tracks i of
                       Some ts \<Rightarrow>
                         trigger (EV_FRAG_PARSING_INIT_SEGMENT frag)
                           (bufferInitSegment lvl ts st)
                     | None \<Rightarrow> st)
           in case initPTS i of
                Some p \<Rightarrow> trigger (EV_INIT_PTS_FOUND frag p) s1
              | None \<Rightarrow> s1))"

text \<open>
  \<^verbatim>\<open>_handleTransmuxComplete\<close> up to the check of the video payload (lines 1205 to 1227):
  the timing is updated, the state becomes PARSING and the init segment is buffered.
\<close>

definition transmuxParsing :: "Helpers \<Rightarrow> fref \<Rightarrow> int \<Rightarrow> RemuxResult \<Rightarrow> Controller \<Rightarrow> Controller" where
  "transmuxParsing h frag lvl res st =
     bufferTransmuxInit frag lvl res
       ((transmuxTiming h frag lvl res st)
          \<lparr>state := PARSING, pendingBuffering := True, appended := False\<rparr>)"

definition handleTransmuxComplete ::
    "Helpers \<Rightarrow> TransmuxResult \<Rightarrow> Controller \<Rightarrow> JSError + Controller" where
  "handleTransmuxComplete h transmuxResult st =
     (case getCurrentContext st (transmuxIdentifier transmuxResult) of
        None \<Rightarrow> Inr st
      | Some (frag, lvl) \<Rightarrow>
          (let res = remuxResult transmuxResult;
               audio0 = transmuxAudio res st;
               st4 = transmuxParsing h frag lvl res st
           in case video res of
                None \<Rightarrow> Inr (bufferAudioAndMetadata frag audio0 res st4)
              | Some v \<Rightarrow>
                  (case detailsAt st4 lvl of
                     None \<Rightarrow> Inl TypeError
                   | Some d \<Rightarrow>
                       (case hasDroppedFrames frag (dropped_d v) (startSN d) (frags st4) of
                          (True, fs) \<Rightarrow> Inr (backtrack frag (startPTS_d v) (st4\<lparr>frags := fs\<rparr>))
                        | (False, fs) \<Rightarrow>
                            Inr (bufferAudioAndMetadata frag audio0 res
                                   (bufferFragmentData (Some v) (st4\<lparr>frags := fs\<rparr>)))))))"

subsection \<open>Reading the effects\<close>

text \<open>The effects of a step from \<open>st\<close> to \<open>st'\<close>, and the pushes of payload data among them.\<close>

definition emitted :: "Controller \<Rightarrow> Controller \<Rightarrow> Effect list" where
  "emitted st st' = drop (length (effects st)) (effects st')"

fun isDataAppend :: "Effect \<Rightarrow> bool" where
  "isDataAppend (Trigger (EV_BUFFER_APPENDING t DataContent)) = True"
| "isDataAppend e = False"

text \<open>A step that appends effects, none of them a push of payload data.\<close>

definition quiet :: "Controller \<Rightarrow> Controller \<Rightarrow> bool" where
  "quiet st st' = (\<exists>ev. effects st' = effects st @ ev \<and> filter isDataAppend ev = [])"

fun isFlush :: "Effect \<Rightarrow> bool" where
  "isFlush (Trigger (EV_BUFFER_FLUSHING a b t)) = True"
| "isFlush e = False"

text \<open>The flush of the whole buffer, of the video only with alternate audio.\<close>

definition flushAll :: "Controller \<Rightarrow> Effect" where
  "flushAll st =
     Trigger (EV_BUFFER_FLUSHING (Num 0) POSITIVE_INFINITY
                (if altAudio st then Some ''video'' else None))"

subsection \<open>Example states\<close>

text \<open>
  A store in which the fragment at address \<open>r\<close> is the main fragment of level 0 with
  sequence number \<open>r\<close>, six seconds long and starting at \<open>6 r\<close>; a configuration; and the
  controller as its constructor leaves it, with that store and an empty tracker.
\<close>

definition mainFragment :: "int \<Rightarrow> real \<Rightarrow> Fragment" where
  "mainFragment n t =
     \<lparr>sn = SN n, level = 0, cc = 0, start = t, duration = 6, type_f = MAIN,
      encrypted = False, backtracked = False, dropped = 0, deltaPTS = None,
      endProgramDateTime = None, loader = False, autoLevel = False, bitrateTest_f = False,
      data_f = False, startPTS = None, endPTS = None, startDTS = None, endDTS = None,
      hasAudio_f = False, hasVideo_f = False\<rparr>"

definition exampleStore :: "fref \<Rightarrow> Fragment" where
  "exampleStore r = mainFragment (int r) (6 * real r)"

definition exampleConfig :: Config where
  "exampleConfig =
     \<lparr>maxBufferLength = 30, maxMaxBufferLength = 600, maxBufferSize = 60000000,
      maxBufferHole = 0.5, maxFragLookUpTolerance = 0.25, liveSyncDuration = None,
      liveSyncDurationCount = 3, liveMaxLatencyDuration = None,
      liveMaxLatencyDurationCount = 10, initialLiveManifestSize = 1,
      startFragPrefetch = False, fragLoadingMaxRetry = 6, fragLoadingRetryDelay = 1000,
      fragLoadingMaxRetryTimeout = 64000\<rparr>"

definition newController :: Controller where
  "newController =
     \<lparr>state = STOPPED, fragLoadError = 0, retryDate = 0, loadedmetadata = False,
      startFragRequested = False, nextLoadPosition = 0, startPosition = 0,
      fragCurrent = None, fragPrevious = None, media = None, mediaBuffer = None,
      config = exampleConfig, levels = None, level_c = - 1, nextLoadLevel = - 1,
      autoLevelEnabled = True, levelLastLoaded = None, altAudio = False,
      bitrateTest = False, immediateSwitch = False, previouslyPaused = False,
      pendingBuffering = False, appended = False, liveSyncPosition = None,
      frags = exampleStore, tracker = (\<lambda>r. None), effects = []\<rparr>"

definition exampleMedia :: "real \<Rightarrow> TimeRanges \<Rightarrow> Media" where
  "exampleMedia t ranges =
     \<lparr>currentTime = t, paused = False, readyState = 4, seeking = False,
      duration_m = 5000, buffered = ranges\<rparr>"

definition fragLoadErrorEvent :: "fref \<Rightarrow> ErrorData" where
  "fragLoadErrorEvent r =
     \<lparr>details_e = FRAG_LOAD_ERROR, fatal = False, frag_e = Some r, parent_e = None,
      levelRetry = False\<rparr>"

definition bufferFullErrorEvent :: ErrorData where
  "bufferFullErrorEvent =
     \<lparr>details_e = BUFFER_FULL_ERROR, fatal = False, frag_e = None, parent_e = Some MAIN,
      levelRetry = False\<rparr>"

text \<open>
  The controller of the retry scenario: at most three retries, a retry delay of 500 ms
  capped at 4000 ms, while fragment 10 is loading.
\<close>

definition retryController :: Controller where
  "retryController =
     newController
       \<lparr>state := FRAG_LOADING, loadedmetadata := True, fragCurrent := Some 10,
        config := exampleConfig\<lparr>fragLoadingMaxRetry := 3, fragLoadingRetryDelay := 500,
                                 fragLoadingMaxRetryTimeout := 4000\<rparr>\<rparr>"

text \<open>
  The controller of the buffer-full scenario: parsing fragment 5 with the media at 30 s,
  for a buffer length, a cap and buffered ranges to choose.
\<close>

definition bufferFullController :: "real \<Rightarrow> real \<Rightarrow> TimeRanges \<Rightarrow> Controller" where
  "bufferFullController maxLen maxMaxLen ranges =
     newController
       \<lparr>state := PARSING, loadedmetadata := True, fragCurrent := Some 5,
        media := Some (exampleMedia 30 ranges),
        config := exampleConfig\<lparr>maxBufferLength := maxLen, maxMaxBufferLength := maxMaxLen\<rparr>\<rparr>"

text \<open>
  Helpers for the examples: a buffer that is empty at the position, a stream that has not
  ended, a search by PTS that returns the fragment whose interval holds the buffer's end,
  no fragment by program date and time, and a timing update that writes the payload's
  timestamps into the fragment.
\<close>

definition exampleHelpers :: Helpers where
  "exampleHelpers =
     \<lparr>bufferInfo = (\<lambda>ranges pos hole. \<lparr>len = 0, start_b = pos, end_b = pos\<rparr>),
      streamEnded = (\<lambda>st info d. False),
      findFragmentByPTS =
        (\<lambda>fs prev frags0 bufferEnd tol.
           find (\<lambda>r. start (fs r) \<le> bufferEnd \<and> bufferEnd < start (fs r) + duration (fs r))
             frags0),
      findFragmentByPDT = (\<lambda>fs frags0 pdt tol. None),
      updateFragPTSDTS =
        (\<lambda>d fs r sp ep sd ed.
           (sp - start (fs r), d,
            fs(r := (fs r)\<lparr>startPTS := Some sp, endPTS := Some ep, startDTS := Some sd,
                            endDTS := ed\<rparr>)))\<rparr>"

text \<open>
  The controller of the switch scenario: the media plays at 12 s with \<open>[0, 20)\<close> buffered
  while fragment 7, which has a loader, is loading; and the controller after one and after
  two immediate level switches.
\<close>

definition switchController :: Controller where
  "switchController =
     newController
       \<lparr>state := FRAG_LOADING, loadedmetadata := True, fragCurrent := Some 7,
        media := Some (exampleMedia 12 [(0, 20)]),
        frags := exampleStore(7 := (exampleStore 7)\<lparr>loader := True\<rparr>)\<rparr>"

definition switchedOnce :: Controller where
  "switchedOnce = immediateLevelSwitch switchController"

definition switchedTwice :: Controller where
  "switchedTwice = immediateLevelSwitch switchedOnce"

text \<open>A controller whose tracker holds fragment 3 as appended (OK).\<close>

definition trackedController :: Controller where
  "trackedController =
     newController\<lparr>state := IDLE, nextLoadPosition := 18, tracker := (\<lambda>r. None)(3 := Some OK)\<rparr>"

text \<open>
  A live level of the fragments at the given addresses, six seconds each, without PTS and
  without program date and time.
\<close>

definition liveDetails :: "fref list \<Rightarrow> int \<Rightarrow> LevelDetails" where
  "liveDetails frags0 firstSN =
     \<lparr>fragments = frags0, startSN = firstSN, endSN = firstSN + int (length frags0) - 1,
      live = True, PTSKnown = False, hasProgramDateTime = False, targetduration = 6,
      totalduration = 6 * real (length frags0), initSegment = None\<rparr>"

text \<open>
  The switch scenario of the continuity counters: the new level has the fragments 20, 21
  and 22 (addresses 0, 1, 2) with the counters 0, 1, 1; the previous fragment (address 3)
  has the sequence number 5 and the counter 0.
\<close>

definition ccStore :: "fref \<Rightarrow> Fragment" where
  "ccStore =
     exampleStore
       (0 := (mainFragment 20 0)\<lparr>level := 1, cc := 0\<rparr>,
        1 := (mainFragment 21 6)\<lparr>level := 1, cc := 1\<rparr>,
        2 := (mainFragment 22 12)\<lparr>level := 1, cc := 1\<rparr>,
        3 := (mainFragment 5 0)\<lparr>level := 0, cc := 0\<rparr>)"

definition ccController :: Controller where
  "ccController =
     newController\<lparr>state := IDLE, startFragRequested := True, fragPrevious := Some 3,
                    frags := ccStore\<rparr>"

text \<open>
  The live catch-up scenario: eight fragments of six seconds that start at 1000, 1006, up
  to 1042, and a media element at 0 with nothing buffered and the given ready state.
\<close>

definition liveController :: "nat \<Rightarrow> Controller" where
  "liveController ready =
     newController
       \<lparr>state := IDLE, levelLastLoaded := Some 0,
        media := Some ((exampleMedia 0 [])\<lparr>readyState := ready\<rparr>),
        frags := (\<lambda>r. mainFragment (int r) (1000 + 6 * real r))\<rparr>"

definition liveLevel :: LevelDetails where
  "liveLevel = liveDetails [0, 1, 2, 3, 4, 5, 6, 7] 0"

text \<open>
  The backtrack scenario: level 0 has the fragments 5 to 12, fragment 10 is the current
  one, and the remuxer reports five dropped frames for its video.
\<close>

definition vodDetails :: LevelDetails where
  "vodDetails = (liveDetails [5, 6, 7, 8, 9, 10, 11, 12] 5)\<lparr>live := False\<rparr>"

definition parsingController :: Controller where
  "parsingController =
     newController
       \<lparr>state := FRAG_LOADING, loadedmetadata := True, startFragRequested := True,
        fragCurrent := Some 10, levelLastLoaded := Some 0, level_c := 0, nextLoadLevel := 0,
        nextLoadPosition := 66,
        levels := Some [\<lparr>bitrate = 2000000, details = Some vodDetails\<rparr>],
        media := Some (exampleMedia 55 [(0, 60)]),
        tracker := (\<lambda>r. None)(10 := Some LOADING)\<rparr>"

definition droppedVideo :: RemuxTrack where
  "droppedVideo =
     \<lparr>type_d = ''video'', startPTS_d = 60.5, endPTS_d = Some 66, startDTS_d = 60.4,
      endDTS_d = Some 66, hasAudio = False, hasVideo = True, dropped_d = 5,
      data1 = Some 100, data2 = Some 2000\<rparr>"

definition droppedResult :: TransmuxResult where
  "droppedResult =
     \<lparr>remuxResult = \<lparr>audio = None, video = Some droppedVideo, text_r = False, id3 = False,
                      initSegment_r = None\<rparr>,
      transmuxIdentifier = \<lparr>level_i = 0, sn_i = SN 10\<rparr>\<rparr>"

text \<open>The controller once fragment 10 has been backtracked, the buffer ending at 60.5.\<close>

definition backtrackedController :: Controller where
  "backtrackedController =
     (setBacktracked 10 True (setDropped 10 5 parsingController))
       \<lparr>state := IDLE, fragPrevious := Some 10, nextLoadPosition := 60.5\<rparr>"

text \<open>Helpers that report 250 s of buffer ahead of the position.\<close>

definition fullBufferHelpers :: Helpers where
  "fullBufferHelpers =
     exampleHelpers
       \<lparr>bufferInfo := (\<lambda>ranges pos hole. \<lparr>len = 250, start_b = pos, end_b = pos + 250\<rparr>)\<rparr>"

definition idleController :: Controller where
  "idleController = parsingController\<lparr>state := IDLE, fragCurrent := None\<rparr>"

text \<open>
  A controller whose previous fragment is fragment 5, backtracked with three dropped
  frames, for a level that starts with that fragment.
\<close>

definition firstBacktrackedController :: Controller where
  "firstBacktrackedController =
     (setBacktracked 5 True (setDropped 5 3 newController))
       \<lparr>state := IDLE, fragPrevious := Some 5, startFragRequested := True\<rparr>"

text \<open>
  The backtrack scenario continued. The selection has stepped back from fragment 10 to
  fragment 9 and marked it; then fragment 9 has been loaded again, its video reporting
  four dropped frames, which \<open>hasDroppedFrames\<close> records, with a gap of one second between
  audio and video, and it has become the previous fragment.
\<close>

definition steppedBackController :: Controller where
  "steppedBackController = setBacktracked 9 True (setDropped 10 0 backtrackedController)"

definition reloadedStore :: "fref \<Rightarrow> Fragment" where
  "reloadedStore = snd (hasDroppedFrames 9 4 5 (frags steppedBackController))"

definition reloadedController :: Controller where
  "reloadedController =
     steppedBackController
       \<lparr>frags := reloadedStore(9 := (reloadedStore 9)\<lparr>deltaPTS := Some 1\<rparr>),
        fragPrevious := Some 9\<rparr>"

text \<open>
  The buffer-full controller with a store in which the fragment at address 1 is an audio
  fragment.
\<close>

definition audioFragController :: Controller where
  "audioFragController =
     (bufferFullController 30 60 [(0, 100)])
       \<lparr>frags := exampleStore(1 := (exampleStore 1)\<lparr>type_f := AUDIO\<rparr>)\<rparr>"

section \<open>Error handling and retry\<close>

text \<open>
  C1. A non-fatal FRAG_LOAD_ERROR, FRAG_LOAD_TIMEOUT, KEY_LOAD_ERROR or KEY_LOAD_TIMEOUT
  for a main fragment: while the retry count \<open>fragLoadError\<close> is below
  \<open>fragLoadingMaxRetry\<close>, the retry date becomes
  \<open>now + min (2 ^ fragLoadError * fragLoadingRetryDelay) fragLoadingMaxRetryTimeout\<close>, the
  count goes up by one and the state becomes FRAG_LOADING_WAITING_RETRY, the event staying
  non-fatal; otherwise the event is made fatal and the state becomes ERROR, the count and
  the retry date staying as they are. The configuration and the fragments are unchanged.
\<close>

theorem onError_frag_load_retry:
  assumes "details_e data \<in> {FRAG_LOAD_ERROR, FRAG_LOAD_TIMEOUT, KEY_LOAD_ERROR, KEY_LOAD_TIMEOUT}"
    and "\<not> fatal data"
    and "errorFrag data st = Some r"
    and "type_f (frags st r) = MAIN"
  shows "\<exists>data' st'. onError now data st = Inr (data', st') \<and>
           config st' = config st \<and> frags st' = frags st \<and>
           (if int (fragLoadError st) < fragLoadingMaxRetry (config st)
            then retryDate st' =
                   now + min (2 ^ fragLoadError st * fragLoadingRetryDelay (config st))
                             (fragLoadingMaxRetryTimeout (config st))
                 \<and> fragLoadError st' = fragLoadError st + 1
                 \<and> state st' = FRAG_LOADING_WAITING_RETRY
                 \<and> data' = data
            else fatal data' \<and> state st' = ERROR
                 \<and> fragLoadError st' = fragLoadError st \<and> retryDate st' = retryDate st)"
  using assms by (auto simp: onError_def Let_def)

text \<open>
  The retry scenario, from the theorem: with at most three retries, a delay of 500 ms and
  a cap of 4000 ms, three failures in a row at time 0 schedule the retries at 500, 1000
  and 2000 ms, and the fourth failure is made fatal.
\<close>

theorem onError_retry_backoff_scenario:
  "\<exists>d1 s1 d2 s2 d3 s3 d4 s4.
     onError 0 (fragLoadErrorEvent 10) retryController = Inr (d1, s1)
     \<and> retryDate s1 = 500 \<and> state s1 = FRAG_LOADING_WAITING_RETRY
     \<and> onError 0 d1 s1 = Inr (d2, s2)
     \<and> retryDate s2 = 1000 \<and> state s2 = FRAG_LOADING_WAITING_RETRY
     \<and> onError 0 d2 s2 = Inr (d3, s3)
     \<and> retryDate s3 = 2000 \<and> state s3 = FRAG_LOADING_WAITING_RETRY
     \<and> onError 0 d3 s3 = Inr (d4, s4)
     \<and> fatal d4 \<and> state s4 = ERROR"
proof -
  let ?d = "fragLoadErrorEvent 10"
  have pre: "details_e ?d \<in> {FRAG_LOAD_ERROR, FRAG_LOAD_TIMEOUT, KEY_LOAD_ERROR, KEY_LOAD_TIMEOUT}"
    "\<not> fatal ?d"
    by (simp_all add: fragLoadErrorEvent_def)
  have ef: "errorFrag ?d s = Some 10" for s
    by (simp add: errorFrag_def fragLoadErrorEvent_def)
  have cfg: "fragLoadingMaxRetry (config retryController) = 3"
    "fragLoadingRetryDelay (config retryController) = 500"
    "fragLoadingMaxRetryTimeout (config retryController) = 4000"
    "fragLoadError retryController = 0"
    by (simp_all add: retryController_def newController_def exampleConfig_def)
  have main: "type_f (frags retryController 10) = MAIN"
    by (simp add: retryController_def newController_def exampleStore_def mainFragment_def)
  from onError_frag_load_retry [OF pre ef main, of 0] cfg
  obtain s1 where 1: "onError 0 ?d retryController = Inr (?d, s1)"
    "config s1 = config retryController" "frags s1 = frags retryController"
    "retryDate s1 = 500" "fragLoadError s1 = 1" "state s1 = FRAG_LOADING_WAITING_RETRY"
    by auto
  from onError_frag_load_retry [OF pre ef, of s1 0] main 1 cfg
  obtain s2 where 2: "onError 0 ?d s1 = Inr (?d, s2)"
    "config s2 = config retryController" "frags s2 = frags retryController"
    "retryDate s2 = 1000" "fragLoadError s2 = 2" "state s2 = FRAG_LOADING_WAITING_RETRY"
    by auto
  from onError_frag_load_retry [OF pre ef, of s2 0] main 2 cfg
  obtain s3 where 3: "onError 0 ?d s2 = Inr (?d, s3)"
    "config s3 = config retryController" "frags s3 = frags retryController"
    "retryDate s3 = 2000" "fragLoadError s3 = 3" "state s3 = FRAG_LOADING_WAITING_RETRY"
    by auto
  from onError_frag_load_retry [OF pre ef, of s3 0] main 3 cfg
  obtain d4 s4 where 4: "onError 0 ?d s3 = Inr (d4, s4)" "fatal d4" "state s4 = ERROR"
    by auto
  from 1 2 3 4 show ?thesis by blast
qed

text \<open>
  C2 as stated fails. With a buffer length of 50 and a cap of 60, a buffer-full error at a
  buffered position halves the cap to 30, below the buffer length: there is no floor. With
  \<open>[0, 30.2)\<close> buffered and the media at 30, the current position is buffered but the
  position half a second later is not: the buffer is flushed. And an event that carries an
  audio fragment is ignored, whatever its parent.
\<close>

theorem onError_buffer_full_counterexample:
  "isBuffered (exampleMedia 30 [(0, 100)]) (currentTime (exampleMedia 30 [(0, 100)]))
   \<and> maxMaxBufferLength (config (snd (projr
         (onError 0 bufferFullErrorEvent (bufferFullController 50 60 [(0, 100)]))))) = 30
   \<and> maxBufferLength (config (snd (projr
         (onError 0 bufferFullErrorEvent (bufferFullController 50 60 [(0, 100)]))))) = 50
   \<and> isBuffered (exampleMedia 30 [(0, 30.2)]) (currentTime (exampleMedia 30 [(0, 30.2)]))
   \<and> state (snd (projr
         (onError 0 bufferFullErrorEvent (bufferFullController 30 60 [(0, 30.2)]))))
       = BUFFER_FLUSHING
   \<and> filter isFlush
         (emitted (bufferFullController 30 60 [(0, 30.2)])
            (snd (projr
               (onError 0 bufferFullErrorEvent (bufferFullController 30 60 [(0, 30.2)])))))
       = [Trigger (EV_BUFFER_FLUSHING (Num 0) POSITIVE_INFINITY None)]
   \<and> mediaBuffered audioFragController
   \<and> state audioFragController = PARSING
   \<and> onError 0 (bufferFullErrorEvent\<lparr>frag_e := Some 1\<rparr>) audioFragController
       = Inr (bufferFullErrorEvent\<lparr>frag_e := Some 1\<rparr>, audioFragController)"
  by (simp add: onError_def Let_def reduceMaxBufferLength_def flushMainBuffer_def
      trigger_def bufferFullController_def newController_def exampleConfig_def exampleMedia_def
      bufferFullErrorEvent_def errorFrag_def exampleStore_def mainFragment_def mediaBuffered_def
      isBuffered_def emitted_def audioFragController_def)

text \<open>
  C2, amended. A BUFFER_FULL_ERROR with parent main, in the state PARSING or PARSED, whose
  fragment (the event's, else the current one) is absent or a main fragment: when a media
  element is attached and both its current position and the position half a second later
  are buffered, \<open>maxMaxBufferLength\<close> is halved if it is at least \<open>maxBufferLength\<close> and
  left as it is otherwise, the state becomes IDLE, nothing is flushed and \<open>fragCurrent\<close>
  stays; otherwise the whole buffer is flushed over \<open>[0, +\<infinity>)\<close>, \<open>fragCurrent\<close> is cleared
  and the configuration stays.
\<close>

theorem onError_buffer_full:
  assumes "details_e data = BUFFER_FULL_ERROR"
    and "parent_e data = Some MAIN"
    and "state st = PARSING \<or> state st = PARSED"
    and "case errorFrag data st of Some r \<Rightarrow> type_f (frags st r) = MAIN | None \<Rightarrow> True"
  shows "\<exists>st'. onError now data st = Inr (data, st') \<and>
           (if mediaBuffered st
            then maxMaxBufferLength (config st') =
                   (if maxMaxBufferLength (config st) \<ge> maxBufferLength (config st)
                    then maxMaxBufferLength (config st) / 2
                    else maxMaxBufferLength (config st))
                 \<and> maxBufferLength (config st') = maxBufferLength (config st)
                 \<and> state st' = IDLE
                 \<and> effects st' = effects st
                 \<and> fragCurrent st' = fragCurrent st
            else state st' = BUFFER_FLUSHING
                 \<and> effects st' = effects st @ [flushAll st]
                 \<and> fragCurrent st' = None
                 \<and> config st' = config st)"
  using assms
  by (auto simp: onError_def Let_def reduceMaxBufferLength_def flushMainBuffer_def
      trigger_def flushAll_def split: option.splits)

text \<open>
  The buffer-full scenario, from the theorem: with the media at 30 s inside a buffered
  range and a cap of 60 over a buffer length of 30, the cap becomes 30, the state IDLE and
  nothing is flushed; with the position not buffered the whole buffer is flushed.
\<close>

theorem onError_buffer_full_scenario:
  "\<exists>s1 s2.
     onError 0 bufferFullErrorEvent (bufferFullController 30 60 [(0, 100)])
       = Inr (bufferFullErrorEvent, s1)
     \<and> maxMaxBufferLength (config s1) = 30 \<and> state s1 = IDLE
     \<and> effects s1 = []
     \<and> onError 0 bufferFullErrorEvent (bufferFullController 30 60 [(40, 100)])
       = Inr (bufferFullErrorEvent, s2)
     \<and> effects s2 = [Trigger (EV_BUFFER_FLUSHING (Num 0) POSITIVE_INFINITY None)]
     \<and> fragCurrent s2 = None"
proof -
  let ?a = "bufferFullController 30 60 [(0, 100)]"
  let ?b = "bufferFullController 30 60 [(40, 100)]"
  have ev: "details_e bufferFullErrorEvent = BUFFER_FULL_ERROR"
    "parent_e bufferFullErrorEvent = Some MAIN"
    by (simp_all add: bufferFullErrorEvent_def)
  have sa: "state ?a = PARSING \<or> state ?a = PARSED"
    and sb: "state ?b = PARSING \<or> state ?b = PARSED"
    by (simp_all add: bufferFullController_def newController_def)
  have fa: "case errorFrag bufferFullErrorEvent ?a of
              Some r \<Rightarrow> type_f (frags ?a r) = MAIN | None \<Rightarrow> True"
    and fb: "case errorFrag bufferFullErrorEvent ?b of
               Some r \<Rightarrow> type_f (frags ?b r) = MAIN | None \<Rightarrow> True"
    by (simp_all add: errorFrag_def bufferFullErrorEvent_def bufferFullController_def
        newController_def exampleStore_def mainFragment_def)
  have ma: "mediaBuffered ?a" and mb: "\<not> mediaBuffered ?b"
    by (simp_all add: mediaBuffered_def bufferFullController_def newController_def
        exampleMedia_def isBuffered_def)
  have va: "maxMaxBufferLength (config ?a) = 60" "maxBufferLength (config ?a) = 30"
    "effects ?a = []" "effects ?b = []" "altAudio ?b = False"
    by (simp_all add: bufferFullController_def newController_def exampleConfig_def)
  from onError_buffer_full [OF ev sa fa, of 0] ma va
  obtain s1 where 1: "onError 0 bufferFullErrorEvent ?a = Inr (bufferFullErrorEvent, s1)"
    "maxMaxBufferLength (config s1) = 30" "state s1 = IDLE" "effects s1 = []"
    by auto
  from onError_buffer_full [OF ev sb fb, of 0] mb va
  obtain s2 where 2: "onError 0 bufferFullErrorEvent ?b = Inr (bufferFullErrorEvent, s2)"
    "effects s2 = [Trigger (EV_BUFFER_FLUSHING (Num 0) POSITIVE_INFINITY None)]"
    "fragCurrent s2 = None"
    by (auto simp: flushAll_def)
  from 1 2 show ?thesis by blast
qed

section \<open>Loading a fragment\<close>

text \<open>
  C9. Whatever the tracker says of the fragment, \<open>loadFragment\<close> makes it the current
  fragment and sets \<open>startFragRequested\<close>; it sets \<open>nextLoadPosition\<close> to the fragment's start
  plus its duration when the sequence number is finite and no bitrate test runs, and leaves
  it otherwise. A load is dispatched only when the fragment is backtracked or the tracker
  holds it as NOT_LOADED or PARTIAL: in any other tracker state, OK and APPENDING among
  them, the three fields are written and nothing is dispatched.
\<close>

theorem loadFragment_sets_current:
  "fragCurrent (loadFragment frag st) = Some frag
   \<and> startFragRequested (loadFragment frag st)
   \<and> nextLoadPosition (loadFragment frag st) =
       (if isFiniteSN (sn (frags st frag)) \<and> \<not> bitrateTest st
        then start (frags st frag) + duration (frags st frag)
        else nextLoadPosition st)
   \<and> emitted st (loadFragment frag st) =
       (if backtracked (frags st frag) \<or> getState st frag = NOT_LOADED
           \<or> getState st frag = PARTIAL
        then (if sn (frags st frag) = InitSegmentSN then [LoadInitSegment frag]
              else if bitrateTest st then [DoFragLoad frag]
              else [LoadFragForPlayback frag])
        else [])"
  by (auto simp: loadFragment_def Let_def getState_def perform_def emitted_def
      loadBitrateTestFrag_def reduceMaxBufferLength_def removeFragment_def
      split: option.splits prod.splits)

text \<open>
  An instance: fragment 3, which starts at 18 s and lasts 6 s, is held as OK by the
  tracker; loading it dispatches nothing and still moves \<open>nextLoadPosition\<close> to 24.
\<close>

theorem loadFragment_tracked_scenario:
  "getState trackedController 3 = OK
   \<and> fragCurrent (loadFragment 3 trackedController) = Some 3
   \<and> startFragRequested (loadFragment 3 trackedController)
   \<and> nextLoadPosition (loadFragment 3 trackedController) = 24
   \<and> emitted trackedController (loadFragment 3 trackedController) = []"
  using loadFragment_sets_current [of 3 trackedController]
  by (simp add: getState_def trackedController_def newController_def exampleStore_def
      mainFragment_def)

section \<open>Immediate level switch\<close>

text \<open>
  C10. Every call of \<open>immediateLevelSwitch\<close> aborts the loader of the current fragment if
  it has one, clears \<open>fragCurrent\<close> and flushes the whole buffer. A call made while an
  immediate switch is in progress does not pause the media and keeps \<open>previouslyPaused\<close>;
  the first call pauses the media, if there is one, and records whether it was paused.
  At the end of the switch playback resumes exactly when \<open>previouslyPaused\<close> is false (and
  the media has buffered ranges).
\<close>

theorem immediateLevelSwitch_repeated:
  "fragCurrent (immediateLevelSwitch st) = None
   \<and> state (immediateLevelSwitch st) = BUFFER_FLUSHING
   \<and> immediateSwitch (immediateLevelSwitch st)
   \<and> emitted st (immediateLevelSwitch st) =
       (if \<not> immediateSwitch st \<and> media st \<noteq> None then [MediaPause] else [])
       @ (case fragCurrent st of
            Some r \<Rightarrow> if loader (frags st r) then [LoaderAbort r] else []
          | None \<Rightarrow> [])
       @ [flushAll st]
   \<and> previouslyPaused (immediateLevelSwitch st) =
       (if immediateSwitch st then previouslyPaused st
        else case media st of Some m \<Rightarrow> paused m | None \<Rightarrow> True)
   \<and> media (immediateLevelSwitch st) =
       (if immediateSwitch st then media st
        else map_option (\<lambda>m. m\<lparr>paused := True\<rparr>) (media st))
   \<and> emitted st' (immediateLevelSwitchEnd st') =
       (if (case media st' of Some m \<Rightarrow> buffered m \<noteq> [] | None \<Rightarrow> False)
           \<and> \<not> previouslyPaused st'
        then [MediaPlay] else [])"
  by (auto simp: immediateLevelSwitch_def immediateLevelSwitchEnd_def Let_def perform_def
      emitted_def flushMainBuffer_def trigger_def flushAll_def split: option.splits)

text \<open>
  An instance: two switches in a row while the media plays. The first pauses it, aborts
  the loader of fragment 7 and flushes; the second only flushes, and \<open>previouslyPaused\<close> is
  still false although the media is paused by then, so the end of the switch resumes
  playback.
\<close>

theorem immediateLevelSwitch_twice_scenario:
  "emitted switchController switchedOnce =
     [MediaPause, LoaderAbort 7,
      Trigger (EV_BUFFER_FLUSHING (Num 0) POSITIVE_INFINITY None)]
   \<and> previouslyPaused switchedOnce = False
   \<and> map_option paused (media switchedOnce) = Some True
   \<and> emitted switchedOnce switchedTwice =
       [Trigger (EV_BUFFER_FLUSHING (Num 0) POSITIVE_INFINITY None)]
   \<and> previouslyPaused switchedTwice = False
   \<and> fragCurrent switchedTwice = None
   \<and> emitted switchedTwice (immediateLevelSwitchEnd switchedTwice) = [MediaPlay]"
proof -
  have a: "\<not> immediateSwitch switchController" "fragCurrent switchController = Some 7"
    "loader (frags switchController 7)" "\<not> altAudio switchController"
    "media switchController = Some (exampleMedia 12 [(0, 20)])"
    by (simp_all add: switchController_def newController_def)
  note one = immediateLevelSwitch_repeated [of switchController switchedTwice,
      folded switchedOnce_def]
  have b: "immediateSwitch switchedOnce" "fragCurrent switchedOnce = None"
    "previouslyPaused switchedOnce = False"
    "media switchedOnce = Some ((exampleMedia 12 [(0, 20)])\<lparr>paused := True\<rparr>)"
    "altAudio switchedOnce = False"
    using one a
    by (simp_all add: exampleMedia_def switchedOnce_def immediateLevelSwitch_def Let_def
        perform_def flushMainBuffer_def trigger_def)
  note two = immediateLevelSwitch_repeated [of switchedOnce switchedTwice,
      folded switchedTwice_def]
  show ?thesis
    using one two a b by (simp add: flushAll_def exampleMedia_def)
qed

section \<open>The tick in the IDLE state\<close>

text \<open>
  C7. In \<open>doTickIdle\<close>, for a selected level whose details are loaded: when the buffered
  length ahead of the position is at least
  \<open>min (if levelBitrate then max (8 * maxBufferSize / levelBitrate) maxBufferLength else
  maxBufferLength) maxMaxBufferLength\<close>, clamped below at 0, the method returns the
  controller as it was: no key load, no fragment load and no end of stream is issued, and
  the state, \<open>fragCurrent\<close>, \<open>nextLoadPosition\<close> and the level are unchanged.
\<close>

theorem doTickIdle_buffer_long_enough:
  assumes "levelAt st (nextLoadLevel st) = Some levelInfo"
    and "details levelInfo = Some levelDetails"
    and "tickPosition st = Inr pos"
    and "len (bufferInfo h (bufferedOf st) pos (maxBufferHole (config st)))
           \<ge> max 0 (min (if bitrate levelInfo \<noteq> 0
                           then max (8 * maxBufferSize (config st) / bitrate levelInfo)
                                    (maxBufferLength (config st))
                           else maxBufferLength (config st))
                          (maxMaxBufferLength (config st)))"
  shows "doTickIdle h st = Inr st"
  using assms by (auto simp: doTickIdle_def Let_def maxBufLen_def)

text \<open>
  An instance: a level of 2 Mbit/s with a buffer size of 60 MB, a buffer length of 30 s
  and a cap of 600 s may buffer 240 s; with 250 s buffered the tick changes nothing.
\<close>

theorem doTickIdle_buffer_long_enough_scenario:
  "state idleController = IDLE
   \<and> len (bufferInfo fullBufferHelpers (bufferedOf idleController) 55 0.5) = 250
   \<and> maxBufLen (config idleController) 2000000 = 240
   \<and> doTickIdle fullBufferHelpers idleController = Inr idleController"
proof -
  have a: "levelAt idleController (nextLoadLevel idleController)
             = Some \<lparr>bitrate = 2000000, details = Some vodDetails\<rparr>"
    by (simp add: levelAt_def index_js_def idleController_def parsingController_def
        newController_def)
  have b: "tickPosition idleController = Inr 55"
    by (simp add: tickPosition_def idleController_def parsingController_def
        newController_def exampleMedia_def)
  have c: "len (bufferInfo fullBufferHelpers (bufferedOf idleController) 55
                 (maxBufferHole (config idleController))) = 250"
    "maxBufferHole (config idleController) = 0.5"
    "maxBufferSize (config idleController) = 60000000"
    "maxBufferLength (config idleController) = 30"
    "maxMaxBufferLength (config idleController) = 600"
    "state idleController = IDLE"
    by (simp_all add: fullBufferHelpers_def exampleHelpers_def idleController_def
        parsingController_def newController_def exampleConfig_def)
  from doTickIdle_buffer_long_enough [of idleController _ vodDetails 55 fullBufferHelpers,
      OF a _ b] c
  show ?thesis by (simp add: maxBufLen_def)
qed

section \<open>Backtracking in the selection\<close>

text \<open>
  What the selection does when the fragment it starts from has the sequence number of the
  previous fragment and is backtracked: if the successor in the list is backtracked too,
  it returns the successor and changes nothing; otherwise it resets the dropped count of
  the fragment and, if the list has a predecessor, returns the predecessor marked as
  backtracked; without a predecessor it returns none when the fragment's index
  \<open>sn - startSN\<close> is a number other than 0, and the fragment itself when the index is 0 or
  not a number.
\<close>

lemma findFragment_backtracked_cases:
  assumes "foundFragment h fragPrev fragLen frags0 bufferEnd end0 st = Some frag"
    and "fragPrev = Some p"
    and "sn (frags st frag) = sn (frags st p)"
    and "backtracked (frags st frag)"
    and "idx = snIndex (sn (frags st frag)) (startSN levelDetails)"
  shows "findFragment h start0 fragPrev fragLen frags0 bufferEnd end0 levelDetails st =
           (if successorBacktracked frags0 idx st then Inr (index_at frags0 idx 1, st)
            else case index_at frags0 idx (- 1) of
                   Some q \<Rightarrow> Inr (Some q, setBacktracked q True (setDropped frag 0 st))
                 | None \<Rightarrow>
                     Inr (if truthyIndex idx then None else Some frag, setDropped frag 0 st))"
  using assms
  by (auto simp: findFragment_def findFragment_adjust_def Let_def successorBacktracked_def
      setBacktracked_def setDropped_def split: option.splits)

text \<open>
  The branch that returns none stands under the test \<^verbatim>\<open>else if (curSNIdx)\<close>, with the
  comment that one cannot backtrack on the very first fragment; but the index is 0
  exactly for the first fragment, and a fragment at an index from 1 on inside the list has
  a predecessor. So for a fragment of the list the selection never returns none in the
  backtracked branch.
\<close>

lemma findFragment_adjust_none_unreachable:
  assumes "snIndex (sn (frags st frag)) (startSN levelDetails) = Some i"
    and "0 \<le> i" and "i < int (length frags0)"
    and "fragPrev = Some p" and "backtracked (frags st frag)"
  shows "findFragment_adjust frag fragPrev frags0 levelDetails st \<noteq> Inr (None, s)"
  using assms
  by (auto simp: findFragment_adjust_def Let_def index_at_def index_js_def truthyIndex_def
      split: option.splits if_splits)

text \<open>
  C6, on the code. The selection does not return none for a backtracked fragment without
  a predecessor: the level starts with fragment 5, which is backtracked and is the
  previous fragment, and the buffer ends at the playlist's end, so the selection starts
  from fragment 5; it has no predecessor and no successor, and the selection returns
  fragment 5 itself, with its dropped count reset. And two steps back in a row occur: from
  the backtracked fragment 10 the selection steps back to fragment 9 and marks it; when
  fragment 9 has been loaded again with dropped frames, \<open>hasDroppedFrames\<close> has cleared its
  flag, and a selection that lands on fragment 9, now the previous fragment, steps back to
  fragment 8.
\<close>

theorem findFragment_backtrack_failures:
  "backtracked (frags firstBacktrackedController 5)
   \<and> foundFragment exampleHelpers (Some 5) 1 [5] 36 36 firstBacktrackedController = Some 5
   \<and> index_at [5 :: fref] (snIndex (sn (frags firstBacktrackedController 5)) 5) (- 1) = None
   \<and> findFragment exampleHelpers 30 (Some 5) 1 [5] 36 36 (liveDetails [5] 5)
        firstBacktrackedController
      = Inr (Some 5, setDropped 5 0 firstBacktrackedController)
   \<and> findFragment exampleHelpers 30 (Some 10) 8 [5, 6, 7, 8, 9, 10, 11, 12] 60.5 78
        vodDetails backtrackedController
      = Inr (Some 9, steppedBackController)
   \<and> backtracked (frags steppedBackController 9)
   \<and> hasDroppedFrames 9 4 5 (frags steppedBackController) = (False, reloadedStore)
   \<and> \<not> backtracked (frags reloadedController 9)
   \<and> backtracked (frags reloadedController 10)
   \<and> findFragment exampleHelpers 30 (Some 9) 8 [5, 6, 7, 8, 9, 10, 11, 12] 54.5 78
        vodDetails reloadedController
      = Inr (Some 8, reloadedController)"
  by (simp add: findFragment_def foundFragment_def findFragment_adjust_def Let_def
      index_at_def index_js_def truthyIndex_def liveDetails_def vodDetails_def
      firstBacktrackedController_def backtrackedController_def steppedBackController_def
      reloadedController_def reloadedStore_def hasDroppedFrames_def parsingController_def
      setBacktracked_def setDropped_def newController_def exampleHelpers_def
      exampleConfig_def exampleStore_def mainFragment_def)

section \<open>The switch of level on a live playlist\<close>

text \<open>
  C3, on the code: the comparison function compares the previous fragment itself, not its
  continuity counter, with the counter of the candidate, so it never answers \<open>- 1\<close>: it
  answers 1 when the previous counter is greater and 0 otherwise. The new level has the counters 0, 1, 1 and the previous fragment the counter 0, with no
  fragment of the next sequence number: the search stops at the middle fragment, whose
  counter is 1, although the first fragment has the counter 0.
\<close>

theorem ensureFragmentAtLivePoint_compares_object:
  "ensureFragmentAtLivePoint exampleHelpers (liveDetails [0, 1, 2] 20) 5 0 18 (Some 3)
     [0, 1, 2] 3 ccController
   = Inr (Frag 1, ccController)
   \<and> cc (frags ccController 3) = 0
   \<and> cc (frags ccController 0) = 0
   \<and> cc (frags ccController 1) = 1
   \<and> compareCC (frags ccController) 3 1 = 0
   \<and> compareCC fs p f = (if cc (fs p) > cc (fs f) then 1 else 0)"
  by (simp add: ensureFragmentAtLivePoint_def ensureFragmentAtLivePoint_sync_def Let_def
      switchFragment_def search_def search_from.simps index_js_def compareCC_def
      object_less_number_def liveDetails_def ccController_def ccStore_def newController_def
      exampleConfig_def mainFragment_def)

section \<open>The live sync position\<close>

text \<open>
  C8 as stated fails in its example and in what it says of the media. With eight fragments
  of six seconds from 1000 on and a target latency of three target durations, the live
  sync position is 1000 + (48 - 18) = 1030, not 1024, and it is what a ready media element
  is moved to. A media element that is not ready (ready state 0) stays at 0 while
  \<open>nextLoadPosition\<close> becomes 1030.
\<close>

theorem livePoint_counterexample:
  "computeLivePosition 1000 liveLevel (liveController 4) = 1030
   \<and> map_option currentTime
        (media (snd (projr (ensureFragmentAtLivePoint exampleHelpers liveLevel 0 1000 1048
                              None [0, 1, 2, 3, 4, 5, 6, 7] 8 (liveController 4)))))
      = Some 1030
   \<and> nextLoadPosition
        (snd (projr (ensureFragmentAtLivePoint exampleHelpers liveLevel 0 1000 1048
                       None [0, 1, 2, 3, 4, 5, 6, 7] 8 (liveController 0))))
      = 1030
   \<and> map_option currentTime
        (media (snd (projr (ensureFragmentAtLivePoint exampleHelpers liveLevel 0 1000 1048
                              None [0, 1, 2, 3, 4, 5, 6, 7] 8 (liveController 0)))))
      = Some 0"
  by (simp add: ensureFragmentAtLivePoint_def ensureFragmentAtLivePoint_sync_def Let_def
      computeLivePosition_def liveLevel_def liveDetails_def liveController_def
      newController_def exampleConfig_def exampleMedia_def)

text \<open>The method returns the controller that its check of the live point leaves.\<close>

lemma ensureFragmentAtLivePoint_state:
  assumes "ensureFragmentAtLivePoint h levelDetails bufferEnd start0 end0 fragPrev frags0
             fragLen st = Inr (r, s)"
  shows "s = snd (ensureFragmentAtLivePoint_sync levelDetails bufferEnd start0 end0 st)"
proof -
  obtain b st1 where sync:
    "ensureFragmentAtLivePoint_sync levelDetails bufferEnd start0 end0 st = (b, st1)"
    by (cases "ensureFragmentAtLivePoint_sync levelDetails bufferEnd start0 end0 st")
  from assms show ?thesis
    unfolding ensureFragmentAtLivePoint_def sync
    by (simp split: if_splits sum.splits option.splits)
qed

text \<open>
  C8, amended. \<open>computeLivePosition sliding levelDetails\<close> is
  \<open>sliding + max 0 (totalduration - targetLatency)\<close>, the target latency being
  \<open>liveSyncDuration\<close> when it is defined and \<open>liveSyncDurationCount * targetduration\<close>
  otherwise. When the buffer's end is below
  \<open>max (start - maxFragLookUpTolerance) (end - maxLatency)\<close>, the check of the live point
  sets the live sync position, \<open>nextLoadPosition\<close> and its local \<open>bufferEnd\<close> to that
  position computed for the playlist's start, and sets the media's current time to it
  when a media element is attached, its ready state is not 0 and its duration is above
  the position; otherwise the media is left as it is. The rest of
  \<open>ensureFragmentAtLivePoint\<close> does not change the controller again.
\<close>

theorem livePoint_sync:
  assumes "maxLatency = (case liveMaxLatencyDuration (config st) of Some d \<Rightarrow> d
             | None \<Rightarrow> liveMaxLatencyDurationCount (config st) * targetduration levelDetails)"
    and "bufferEnd < max (start0 - maxFragLookUpTolerance (config st)) (end0 - maxLatency)"
    and "livePos = computeLivePosition start0 levelDetails st"
  shows "computeLivePosition sliding levelDetails st =
           sliding + max 0 (totalduration levelDetails -
             (case liveSyncDuration (config st) of Some d \<Rightarrow> d
              | None \<Rightarrow> liveSyncDurationCount (config st) * targetduration levelDetails))
    \<and> (\<exists>st'. ensureFragmentAtLivePoint_sync levelDetails bufferEnd start0 end0 st
               = (livePos, st')
         \<and> nextLoadPosition st' = livePos
         \<and> liveSyncPosition st' = Some livePos
         \<and> media st' =
             (case media st of
                Some m \<Rightarrow> if readyState m \<noteq> 0 \<and> duration_m m > livePos
                          then Some (m\<lparr>currentTime := livePos\<rparr>) else Some m
              | None \<Rightarrow> None)
         \<and> (ensureFragmentAtLivePoint h levelDetails bufferEnd start0 end0 fragPrev frags0
               fragLen st = Inr (r, s) \<longrightarrow> s = st'))"
proof -
  obtain st' where sync:
    "ensureFragmentAtLivePoint_sync levelDetails bufferEnd start0 end0 st = (livePos, st')"
    and fields: "nextLoadPosition st' = livePos" "liveSyncPosition st' = Some livePos"
      "media st' =
         (case media st of
            Some m \<Rightarrow> if readyState m \<noteq> 0 \<and> duration_m m > livePos
                      then Some (m\<lparr>currentTime := livePos\<rparr>) else Some m
          | None \<Rightarrow> None)"
    using assms
    by (auto simp: ensureFragmentAtLivePoint_sync_def Let_def split: option.splits)
  have rest: "ensureFragmentAtLivePoint h levelDetails bufferEnd start0 end0 fragPrev frags0
                fragLen st = Inr (r, s) \<longrightarrow> s = st'"
    using ensureFragmentAtLivePoint_state [of h levelDetails bufferEnd start0 end0 fragPrev
        frags0 fragLen st r s] sync
    by simp
  have pos: "computeLivePosition sliding levelDetails st =
           sliding + max 0 (totalduration levelDetails -
             (case liveSyncDuration (config st) of Some d \<Rightarrow> d
              | None \<Rightarrow> liveSyncDurationCount (config st) * targetduration levelDetails))"
    by (simp add: computeLivePosition_def Let_def)
  from pos sync fields rest show ?thesis by blast
qed

text \<open>
  The live catch-up scenario, from the theorem: with the buffer's end at 0 and a ready
  media element, the position, \<open>nextLoadPosition\<close> and the current time become 1030.
\<close>

theorem livePoint_sync_scenario:
  "\<exists>st'. ensureFragmentAtLivePoint_sync liveLevel 0 1000 1048 (liveController 4) = (1030, st')
     \<and> nextLoadPosition st' = 1030
     \<and> liveSyncPosition st' = Some 1030
     \<and> map_option currentTime (media st') = Some 1030
     \<and> ensureFragmentAtLivePoint exampleHelpers liveLevel 0 1000 1048 None
           [0, 1, 2, 3, 4, 5, 6, 7] 8 (liveController 4) = Inr (NoFrag, st')"
proof -
  let ?fs = "[0, 1, 2, 3, 4, 5, 6, 7] :: fref list"
  have a: "(60 :: real) = (case liveMaxLatencyDuration (config (liveController 4)) of
             Some d \<Rightarrow> d
           | None \<Rightarrow> liveMaxLatencyDurationCount (config (liveController 4))
                       * targetduration liveLevel)"
    by (simp add: liveController_def newController_def exampleConfig_def liveLevel_def
        liveDetails_def)
  have b: "(0 :: real) < max (1000 - maxFragLookUpTolerance (config (liveController 4)))
                             (1048 - 60)"
    by (simp add: liveController_def newController_def exampleConfig_def)
  have c: "(1030 :: real) = computeLivePosition 1000 liveLevel (liveController 4)"
    by (simp add: computeLivePosition_def liveController_def newController_def
        exampleConfig_def liveLevel_def liveDetails_def)
  have m: "media (liveController 4) = Some ((exampleMedia 0 [])\<lparr>readyState := 4\<rparr>)"
    by (simp add: liveController_def newController_def)
  obtain s where e: "ensureFragmentAtLivePoint exampleHelpers liveLevel 0 1000 1048 None ?fs 8
                       (liveController 4) = Inr (NoFrag, s)"
    by (simp add: ensureFragmentAtLivePoint_def ensureFragmentAtLivePoint_sync_def Let_def
        computeLivePosition_def liveLevel_def liveDetails_def liveController_def
        newController_def exampleConfig_def exampleMedia_def)
  from livePoint_sync [OF a b c, where h = exampleHelpers and fragPrev = None
      and ?frags0.0 = ?fs and fragLen = 8 and r = NoFrag and s = s] e
  obtain st' where
    "ensureFragmentAtLivePoint_sync liveLevel 0 1000 1048 (liveController 4) = (1030, st')"
    "nextLoadPosition st' = 1030" "liveSyncPosition st' = Some 1030"
    "media st' =
       (case media (liveController 4) of
          Some m \<Rightarrow> if readyState m \<noteq> 0 \<and> duration_m m > 1030
                    then Some (m\<lparr>currentTime := 1030\<rparr>) else Some m
        | None \<Rightarrow> None)"
    "s = st'"
    by blast
  with e show ?thesis
    by (simp add: m exampleMedia_def)
qed

section \<open>Transmux completion and dropped frames\<close>

text \<open>
  C5, on the code: \<open>hasDroppedFrames\<close> clears the flag of a backtracked fragment although
  dropped frames are reported. Fragment 10 is backtracked and the remuxer reports five
  dropped frames for it: the function answers false and the flag is false afterwards.
  Whatever the count of dropped frames, the flag is false once the function returns.
\<close>

theorem hasDroppedFrames_clears_backtracked:
  "backtracked (frags backtrackedController 10)
   \<and> hasDroppedFrames 10 5 5 (frags backtrackedController)
     = (False, (frags backtrackedController)
                 (10 := (frags backtrackedController 10)\<lparr>backtracked := False\<rparr>))
   \<and> \<not> backtracked (snd (hasDroppedFrames 10 5 5 (frags backtrackedController)) 10)
   \<and> \<not> backtracked (snd (hasDroppedFrames frag n firstSN fs) frag)"
  by (simp add: hasDroppedFrames_def Let_def backtrackedController_def setBacktracked_def
      setDropped_def parsingController_def newController_def)

text \<open>
  The steps of \<open>handleTransmuxComplete\<close> before the check of the video payload append
  effects and push no payload data.
\<close>

lemma quiet_refl: "quiet st st"
  by (simp add: quiet_def)

lemma quiet_trans: "quiet a b \<Longrightarrow> quiet b c \<Longrightarrow> quiet a c"
  by (auto simp: quiet_def)

lemma quiet_emitted: "quiet st st' \<Longrightarrow> filter isDataAppend (emitted st st') = []"
  by (auto simp: quiet_def emitted_def)

lemma trigger_quiet: "\<not> isDataAppend (Trigger ev) \<Longrightarrow> quiet st (trigger ev st)"
  by (simp add: trigger_def quiet_def)

lemma updateTiming_quiet: "quiet st (updateTiming h frag lvl payload st)"
  by (auto simp: quiet_def updateTiming_def Let_def trigger_def setDetails_def
      split: option.splits prod.splits)

lemma transmuxTiming_quiet: "quiet st (transmuxTiming h frag lvl res st)"
  unfolding transmuxTiming_def
  by (rule quiet_trans [OF updateTiming_quiet updateTiming_quiet])

lemma initAppend_fold:
  "quiet st (foldl (\<lambda>s (trackName, hasInit).
                   if hasInit
                   then trigger (EV_BUFFER_APPENDING trackName InitSegmentContent)
                          (s\<lparr>appended := True, pendingBuffering := True\<rparr>)
                   else s) st ts)"
proof (induction ts arbitrary: st)
  case Nil
  show ?case by (simp add: quiet_refl)
next
  case (Cons t ts)
  obtain name hasInit where t: "t = (name, hasInit)" by (cases t)
  let ?s = "(if hasInit
             then trigger (EV_BUFFER_APPENDING name InitSegmentContent)
                    (st\<lparr>appended := True, pendingBuffering := True\<rparr>)
             else st)"
  have step: "quiet st ?s"
    by (auto simp: trigger_def quiet_def)
  from Cons.IH [of ?s] step show ?case
    by (auto simp: t intro: quiet_trans)
qed

lemma bufferInitSegment_quiet: "quiet st (bufferInitSegment lvl ts st)"
proof (cases "state st \<noteq> PARSING")
  case True
  then show ?thesis by (simp add: bufferInitSegment_def quiet_refl)
next
  case False
  let ?ts = "(if altAudio st then filter (\<lambda>(name, i). name \<noteq> ''audio'') ts else ts)"
  let ?s1 = "trigger (EV_BUFFER_CODECS (map fst ?ts)) st"
  have s1: "quiet st ?s1"
    by (auto simp: trigger_def quiet_def)
  from initAppend_fold [of ?s1 ?ts] s1 False show ?thesis
    by (auto simp: bufferInitSegment_def Let_def perform_def quiet_def)
qed

lemma bufferTransmuxInit_quiet: "quiet st (bufferTransmuxInit frag lvl res st)"
proof (cases "initSegment_r res")
  case None
  then show ?thesis by (simp add: bufferTransmuxInit_def quiet_refl)
next
  case (Some i)
  let ?s1 = "(case tracks i of
                Some ts \<Rightarrow> trigger (EV_FRAG_PARSING_INIT_SEGMENT frag)
                             (bufferInitSegment lvl ts st)
              | None \<Rightarrow> st)"
  have s1: "quiet st ?s1"
  proof (cases "tracks i")
    case None
    then show ?thesis by (simp add: quiet_refl)
  next
    case (Some ts)
    have "quiet st (trigger (EV_FRAG_PARSING_INIT_SEGMENT frag) (bufferInitSegment lvl ts st))"
      by (rule quiet_trans [OF bufferInitSegment_quiet trigger_quiet]) simp
    with Some show ?thesis by simp
  qed
  show ?thesis
  proof (cases "initPTS i")
    case None
    with Some s1 show ?thesis by (simp add: bufferTransmuxInit_def Let_def)
  next
    case (Some p)
    have "quiet st (trigger (EV_INIT_PTS_FOUND frag p) ?s1)"
      by (rule quiet_trans [OF s1 trigger_quiet]) simp
    with Some \<open>initSegment_r res = Some i\<close> show ?thesis
      by (simp add: bufferTransmuxInit_def Let_def)
  qed
qed

lemma transmuxParsing_quiet: "quiet st (transmuxParsing h frag lvl res st)"
proof -
  let ?s3 = "(transmuxTiming h frag lvl res st)
               \<lparr>state := PARSING, pendingBuffering := True, appended := False\<rparr>"
  have "quiet st ?s3"
    using transmuxTiming_quiet [of st h frag lvl res] by (simp add: quiet_def)
  then show ?thesis
    unfolding transmuxParsing_def by (rule quiet_trans [OF _ bufferTransmuxInit_quiet])
qed

text \<open>
  C4. A transmux completion whose level and sequence number match the current fragment,
  with a video payload that reports dropped frames: if, once the timing is updated, the
  fragment is not the first of its level and not backtracked, the handler backtracks. The
  fragment leaves the tracker, is marked backtracked and becomes the previous fragment,
  \<open>nextLoadPosition\<close> is the start PTS of the video payload, the state is IDLE when the
  handler asks for the next tick, and no payload data has been pushed to the buffer.
\<close>

theorem handleTransmuxComplete_backtrack:
  assumes ctx: "getCurrentContext st (transmuxIdentifier tr) = Some (frag, lvl)"
    and vid: "video (remuxResult tr) = Some v"
    and drop: "dropped_d v > 0"
    and st4: "st4 = transmuxParsing h frag lvl (remuxResult tr) st"
    and det: "detailsAt st4 lvl = Some d"
    and notfirst: "sn (frags st4 frag) \<noteq> SN (startSN d)"
    and notbt: "\<not> backtracked (frags st4 frag)"
  shows "\<exists>st'. handleTransmuxComplete h tr st = Inr st'
           \<and> tracker st' frag = None
           \<and> backtracked (frags st' frag)
           \<and> dropped (frags st' frag) = dropped_d v
           \<and> nextLoadPosition st' = startPTS_d v
           \<and> state st' = IDLE
           \<and> fragPrevious st' = Some frag
           \<and> filter isDataAppend (emitted st st') = []"
proof -
  have hd: "hasDroppedFrames frag (dropped_d v) (startSN d) (frags st4) =
              (True, (frags st4)(frag := (frags st4 frag)\<lparr>dropped := dropped_d v\<rparr>))"
    using drop notfirst notbt by (simp add: hasDroppedFrames_def Let_def)
  define st' where "st' = backtrack frag (startPTS_d v)
      (st4\<lparr>frags := (frags st4)(frag := (frags st4 frag)\<lparr>dropped := dropped_d v\<rparr>)\<rparr>)"
  have run: "handleTransmuxComplete h tr st = Inr st'"
    using ctx vid det hd
    by (simp add: handleTransmuxComplete_def Let_def st'_def flip: st4)
  have q4: "quiet st st4"
    unfolding st4 by (rule transmuxParsing_quiet)
  have q5: "quiet st4 st'"
    by (simp add: st'_def backtrack_def Let_def perform_def removeFragment_def quiet_def
        setBacktracked_def)
  have noData: "filter isDataAppend (emitted st st') = []"
    by (rule quiet_emitted [OF quiet_trans [OF q4 q5]])
  have fields: "tracker st' frag = None" "backtracked (frags st' frag)"
    "dropped (frags st' frag) = dropped_d v" "nextLoadPosition st' = startPTS_d v"
    "state st' = IDLE" "fragPrevious st' = Some frag"
    by (simp_all add: st'_def backtrack_def Let_def perform_def removeFragment_def
        setBacktracked_def)
  from run fields noData show ?thesis by blast
qed

text \<open>
  The backtrack scenario, from the theorem: five dropped frames for fragment 10 of a
  level that starts at fragment 5.
\<close>

theorem handleTransmuxComplete_backtrack_scenario:
  "\<exists>st'. handleTransmuxComplete exampleHelpers droppedResult parsingController = Inr st'
     \<and> tracker st' 10 = None
     \<and> backtracked (frags st' 10)
     \<and> dropped (frags st' 10) = 5
     \<and> nextLoadPosition st' = 60.5
     \<and> state st' = IDLE
     \<and> fragPrevious st' = Some 10
     \<and> filter isDataAppend (emitted parsingController st') = []"
proof -
  define st4 where "st4 = transmuxParsing exampleHelpers 10 0 (remuxResult droppedResult)
                            parsingController"
  have ctx: "getCurrentContext parsingController (transmuxIdentifier droppedResult)
               = Some (10, 0)"
    by (simp add: getCurrentContext_def levelAt_def index_js_def droppedResult_def
        parsingController_def newController_def exampleStore_def mainFragment_def)
  have vid: "video (remuxResult droppedResult) = Some droppedVideo"
    by (simp add: droppedResult_def)
  have drop: "dropped_d droppedVideo > 0" "dropped_d droppedVideo = 5"
    "startPTS_d droppedVideo = 60.5"
    by (simp_all add: droppedVideo_def)
  have det: "detailsAt st4 0 = Some vodDetails"
    by (simp add: st4_def transmuxParsing_def bufferTransmuxInit_def transmuxTiming_def
        transmuxAudio_def updateTiming_def Let_def trigger_def setDetails_def detailsAt_def
        levelAt_def index_js_def exampleHelpers_def droppedResult_def droppedVideo_def
        parsingController_def newController_def)
  have fr: "sn (frags st4 10) = SN 10" "\<not> backtracked (frags st4 10)"
    by (simp_all add: st4_def transmuxParsing_def bufferTransmuxInit_def transmuxTiming_def
        transmuxAudio_def updateTiming_def Let_def trigger_def setDetails_def detailsAt_def
        levelAt_def index_js_def exampleHelpers_def droppedResult_def droppedVideo_def
        parsingController_def newController_def exampleStore_def mainFragment_def)
  have nf: "sn (frags st4 10) \<noteq> SN (startSN vodDetails)"
    by (simp add: fr vodDetails_def liveDetails_def)
  from handleTransmuxComplete_backtrack [OF ctx vid drop(1) st4_def det nf fr(2)]
  show ?thesis by (simp add: drop)
qed

end
